theory Spec2Isabelle
  imports Complex_Main "HOL-Library.Log_Nat" "HOL-Library.Multiset"
begin

section \<open>JavaScript numbers\<close>

text \<open>
  A JavaScript Number is NaN, one of the two infinities, or a finite binary64 value,
  carried as the real number it denotes.  The two zeros are not told apart: the program
  never divides by a computed value.

  \<open>to_double\<close> is the rounding of a real result to a Number, to nearest with ties to
  even.  A real at or beyond \<open>2^1024 - 2^970\<close> (the midpoint between the largest
  double and \<open>2^1024\<close>) becomes an infinity.  Below that, the result is the multiple of
  the quantum \<open>2^(e - 52)\<close> nearest to the real, where \<open>2^e\<close> is the largest power of
  two not above its magnitude and \<open>e\<close> is at least \<open>-1022\<close> (below \<open>2^-1022\<close> the
  values are subnormal, with quantum \<open>2^-1074\<close>).
\<close>

datatype jsnum = NaN | PInf | NInf | Fin real

definition DBL_OVERFLOW :: real where
  "DBL_OVERFLOW = 2 ^ 1024 - 2 ^ 970"

definition pow2 :: "int \<Rightarrow> real" where
  "pow2 e = (if 0 \<le> e then 2 ^ nat e else 1 / 2 ^ nat (- e))"

text \<open>For \<open>a > 0\<close>, the \<open>e\<close> with \<open>2^e \<le> a < 2^(e + 1)\<close>.\<close>

definition expo :: "real \<Rightarrow> int" where
  "expo a = (if 1 \<le> a then bitlen \<lfloor>a\<rfloor> - 1 else - bitlen (\<lceil>1 / a\<rceil> - 1))"

definition round_half_even :: "real \<Rightarrow> int" where
  "round_half_even y =
     (let n = \<lfloor>y\<rfloor>; f = y - of_int n in
      if f < 1 / 2 then n else if 1 / 2 < f then n + 1 else if even n then n else n + 1)"

definition round_double :: "real \<Rightarrow> real" where
  "round_double x =
     (if x = 0 then 0
      else
        let a = \<bar>x\<bar>; e = max (expo a) (- 1022); q = pow2 (e - 52) in
        sgn x * (of_int (round_half_even (a / q)) * q))"

definition to_double :: "real \<Rightarrow> jsnum" where
  "to_double x =
     (if DBL_OVERFLOW \<le> x then PInf
      else if x \<le> - DBL_OVERFLOW then NInf
      else Fin (round_double x))"

text \<open>\<open>x * k\<close> and \<open>x / k\<close> for a positive finite constant \<open>k\<close>.\<close>

definition js_mul :: "jsnum \<Rightarrow> real \<Rightarrow> jsnum" where
  "js_mul x k = (case x of Fin a \<Rightarrow> to_double (a * k) | _ \<Rightarrow> x)"

definition js_div :: "jsnum \<Rightarrow> real \<Rightarrow> jsnum" where
  "js_div x k = (case x of Fin a \<Rightarrow> to_double (a / k) | _ \<Rightarrow> x)"

definition isNaN :: "jsnum \<Rightarrow> bool" where
  "isNaN x = (x = NaN)"

text \<open>The comparison \<open>x > 0\<close>; it is false for NaN.\<close>

definition js_gt_zero :: "jsnum \<Rightarrow> bool" where
  "js_gt_zero x = (case x of PInf \<Rightarrow> True | Fin a \<Rightarrow> 0 < a | _ \<Rightarrow> False)"

definition is_finite :: "jsnum \<Rightarrow> bool" where
  "is_finite x = (case x of Fin a \<Rightarrow> True | _ \<Rightarrow> False)"

subsection \<open>parseFloat\<close>

text \<open>
  \<open>parseFloat\<close> drops leading white space, takes the longest prefix of the rest that is a
  \<open>StrDecimalLiteral\<close> (an optional sign, then \<open>Infinity\<close> or decimal digits with an
  optional fraction and an optional exponent) and returns its value as a Number; it
  returns NaN when there is no such prefix.  Strings are lists of characters with codes
  below 256.
\<close>

definition is_digit :: "char \<Rightarrow> bool" where
  "is_digit c = (48 \<le> (of_char c :: nat) \<and> (of_char c :: nat) \<le> 57)"

definition is_space :: "char \<Rightarrow> bool" where
  "is_space c = ((of_char c :: nat) \<in> {9, 10, 11, 12, 13, 32, 160})"

definition digit_val :: "char \<Rightarrow> nat" where
  "digit_val c = of_char c - 48"

definition digits_val :: "string \<Rightarrow> nat" where
  "digits_val ds = foldl (\<lambda>acc c. 10 * acc + digit_val c) 0 ds"

definition pow10 :: "int \<Rightarrow> real" where
  "pow10 e = (if 0 \<le> e then 10 ^ nat e else 1 / 10 ^ nat (- e))"

definition starts_with :: "string \<Rightarrow> string \<Rightarrow> bool" where
  "starts_with p s = (take (length p) s = p)"

text \<open>The exponent of the longest \<open>ExponentPart\<close> that starts the string, 0 if none does.\<close>

definition exponent_part :: "string \<Rightarrow> int" where
  "exponent_part s =
     (case s of
        [] \<Rightarrow> 0
      | c # r \<Rightarrow>
          if c = CHR ''e'' \<or> c = CHR ''E'' then
            (case r of
               [] \<Rightarrow> 0
             | g # r' \<Rightarrow>
                 if g = CHR ''+'' \<or> g = CHR ''-'' then
                   (if takeWhile is_digit r' = [] then 0
                    else if g = CHR ''-'' then - int (digits_val (takeWhile is_digit r'))
                    else int (digits_val (takeWhile is_digit r')))
                 else if takeWhile is_digit r = [] then 0
                 else int (digits_val (takeWhile is_digit r)))
          else 0)"

text \<open>
  The longest \<open>StrUnsignedDecimalLiteral\<close> that starts the string: \<open>None\<close> if there is
  none, \<open>Some None\<close> for \<open>Infinity\<close>, \<open>Some (Some v)\<close> for a decimal literal of
  mathematical value \<open>v\<close>.
\<close>

definition unsigned_literal :: "string \<Rightarrow> real option option" where
  "unsigned_literal s =
     (if starts_with ''Infinity'' s then Some None
      else
        let ip = takeWhile is_digit s; r1 = dropWhile is_digit s in
        (case r1 of
           [] \<Rightarrow> if ip = [] then None else Some (Some (real (digits_val ip)))
         | c # r2 \<Rightarrow>
             if c = CHR ''.'' then
               (let fp = takeWhile is_digit r2; r3 = dropWhile is_digit r2 in
                if ip = [] \<and> fp = [] then None
                else Some (Some ((real (digits_val ip)
                                  + real (digits_val fp) / 10 ^ length fp)
                                 * pow10 (exponent_part r3))))
             else if ip = [] then None
             else Some (Some (real (digits_val ip) * pow10 (exponent_part r1)))))"

definition parseFloat :: "string \<Rightarrow> jsnum" where
  "parseFloat s =
     (let t = dropWhile is_space s in
      case t of
        [] \<Rightarrow> NaN
      | c # r \<Rightarrow>
          if c = CHR ''-'' then
            (case unsigned_literal r of
               None \<Rightarrow> NaN
             | Some None \<Rightarrow> NInf
             | Some (Some v) \<Rightarrow> to_double (- v))
          else
            (case unsigned_literal (if c = CHR ''+'' then r else t) of
               None \<Rightarrow> NaN
             | Some None \<Rightarrow> PInf
             | Some (Some v) \<Rightarrow> to_double v))"

section \<open>Constants and data model\<close>

text \<open>The literal \<open>18.0182\<close> denotes the double nearest to it.\<close>

definition CONVERSION_FACTOR :: real where
  "CONVERSION_FACTOR = round_double (180182 / 10000)"

definition MAX_HISTORY_ITEMS_DISPLAYED :: nat where
  "MAX_HISTORY_ITEMS_DISPLAYED = 100"

definition MAX_HISTORY_ITEMS_RENDERED :: nat where
  "MAX_HISTORY_ITEMS_RENDERED = 20"

definition MIN_POINTS_FOR_CHART :: nat where
  "MIN_POINTS_FOR_CHART = 2"

definition MAX_CHART_LABELS :: nat where
  "MAX_CHART_LABELS = 6"

datatype Unit = MgDl | MmolL

text \<open>
  \<open>timestamp\<close> is always a reading of \<open>Date.now()\<close>, a whole number of milliseconds.
\<close>

record HistoryItem =
  id :: string
  timestamp :: int
  mgdlValue :: jsnum
  mmolValue :: jsnum

text \<open>
  What \<open>JSON.parse\<close> returns.  A number is a Number: never NaN, and an infinity only
  for a literal beyond the range of a double such as \<open>1e999\<close>.
\<close>

datatype json =
    JNull
  | JBool bool
  | JNumber jsnum
  | JString string
  | JArray "json list"
  | JObject "(string \<times> json) list"

text \<open>
  The text kept under \<open>HISTORY_STORAGE_KEY\<close> is modelled by what \<open>JSON.parse\<close> makes of
  it, which is all the program does with it: a text that \<open>JSON.parse\<close> rejects with a
  SyntaxError, or the value it parses to.
\<close>

datatype stored = NotJSON string | JSON json

datatype js_error = SyntaxError | TypeError | StorageError

datatype alert =
    ConversionResult Unit jsnum jsnum
  | CouldNotLoad
  | CouldNotSave
  | CouldNotClear

text \<open>
  The component state (the four \<open>useState\<close> cells) together with the part of the
  environment the handlers act on: the storage slot (\<open>None\<close>: no entry under the key),
  the alerts shown so far and the errors written to the console.
\<close>

record screen =
  inputValue :: string
  selectedUnit :: Unit
  history :: "HistoryItem list"
  isHistoryLoading :: bool
  slot :: "stored option"
  alerts :: "alert list"
  console :: "js_error list"

definition initial :: "stored option \<Rightarrow> screen" where
  "initial st =
     \<lparr>inputValue = [], selectedUnit = MgDl, history = [], isHistoryLoading = True,
      slot = st, alerts = [], console = []\<rparr>"

subsection \<open>History entries as JavaScript values\<close>

text \<open>
  A history entry in memory is an object with the four properties in the order in which
  \<open>handleConvert\<close> creates them; \<open>item_value\<close> is that object.
\<close>

definition item_value :: "HistoryItem \<Rightarrow> json" where
  "item_value e =
     JObject [(''id'', JString (id e)), (''timestamp'', JNumber (Fin (of_int (timestamp e)))),
              (''mgdlValue'', JNumber (mgdlValue e)), (''mmolValue'', JNumber (mmolValue e))]"

text \<open>
  \<open>JSON.stringify\<close> writes a finite number as a number and NaN or an infinity as
  \<open>null\<close>; an object has its properties in the order of their creation.  \<open>item_json\<close>
  is what \<open>JSON.parse\<close> reads back from the text written for an entry.
\<close>

definition number_json :: "jsnum \<Rightarrow> json" where
  "number_json x = (case x of Fin a \<Rightarrow> JNumber (Fin a) | _ \<Rightarrow> JNull)"

definition item_json :: "HistoryItem \<Rightarrow> json" where
  "item_json e =
     JObject [(''id'', JString (id e)), (''timestamp'', JNumber (Fin (of_int (timestamp e)))),
              (''mgdlValue'', number_json (mgdlValue e)),
              (''mmolValue'', number_json (mmolValue e))]"

definition JSON_stringify :: "HistoryItem list \<Rightarrow> stored" where
  "JSON_stringify h = JSON (JArray (map item_json h))"

definition JSON_parse :: "stored \<Rightarrow> js_error + json" where
  "JSON_parse t = (case t of NotJSON _ \<Rightarrow> Inl SyntaxError | JSON v \<Rightarrow> Inr v)"

text \<open>
  The program uses the parsed value as a \<open>HistoryItem[]\<close> without any check, whatever
  it is.  The record \<open>HistoryItem\<close> can hold exactly the values of the form
  \<open>item_value e\<close>, and \<open>as_HistoryItem\<close> recovers \<open>e\<close> from such a value.  A load
  that makes the history a list of such values results in \<open>Ready\<close> with the new screen.
  A load that makes the history any other value \<open>v\<close> results in \<open>Unmodelled v s\<close>: the
  screen is as \<open>s\<close> says, except that its history is the value \<open>v\<close>, which the record
  cannot hold; the model does not follow the program from there.
\<close>

definition as_HistoryItem :: "json \<Rightarrow> HistoryItem option" where
  "as_HistoryItem v =
     (case v of
        JObject [(k1, JString i), (k2, JNumber (Fin t)), (k3, JNumber a), (k4, JNumber b)] \<Rightarrow>
          if k1 = ''id'' \<and> k2 = ''timestamp'' \<and> k3 = ''mgdlValue'' \<and> k4 = ''mmolValue''
             \<and> of_int \<lfloor>t\<rfloor> = t
          then Some \<lparr>id = i, timestamp = \<lfloor>t\<rfloor>, mgdlValue = a, mmolValue = b\<rparr>
          else None
      | _ \<Rightarrow> None)"

fun as_HistoryItems :: "json list \<Rightarrow> HistoryItem list option" where
  "as_HistoryItems [] = Some []"
| "as_HistoryItems (v # vs) =
     (case as_HistoryItem v of
        None \<Rightarrow> None
      | Some e \<Rightarrow> (case as_HistoryItems vs of None \<Rightarrow> None | Some es \<Rightarrow> Some (e # es)))"

datatype load_result = Ready screen | Unmodelled json screen

section \<open>Loading and saving the history\<close>

text \<open>
  Web screen, the first \<open>useEffect\<close>.  \<open>read_ok\<close> and \<open>remove_ok\<close> say whether
  \<open>localStorage.getItem\<close> and \<open>localStorage.removeItem\<close> return or throw.
\<close>

definition web_load_failed :: "screen \<Rightarrow> js_error \<Rightarrow> screen" where
  "web_load_failed s e =
     s\<lparr>console := console s @ [e], alerts := alerts s @ [CouldNotLoad], history := [],
       isHistoryLoading := False\<rparr>"

definition web_loadHistory :: "bool \<Rightarrow> bool \<Rightarrow> screen \<Rightarrow> load_result" where
  "web_loadHistory read_ok remove_ok s =
     (if \<not> read_ok then Ready (web_load_failed s StorageError)
      else
        case slot s of
          None \<Rightarrow> Ready (s\<lparr>history := [], isHistoryLoading := False\<rparr>)
        | Some storedHistory \<Rightarrow>
            (case JSON_parse storedHistory of
               Inl e \<Rightarrow> Ready (web_load_failed s e)
             | Inr (JArray parsedHistory) \<Rightarrow>
                 (case as_HistoryItems (take MAX_HISTORY_ITEMS_DISPLAYED parsedHistory) of
                    None \<Rightarrow>
                      Unmodelled (JArray (take MAX_HISTORY_ITEMS_DISPLAYED parsedHistory))
                        (s\<lparr>isHistoryLoading := False\<rparr>)
                  | Some h \<Rightarrow> Ready (s\<lparr>history := h, isHistoryLoading := False\<rparr>))
             | Inr _ \<Rightarrow>
                 if remove_ok
                 then Ready (s\<lparr>history := [], slot := None, isHistoryLoading := False\<rparr>)
                 else Ready (web_load_failed s StorageError)))"

text \<open>
  Native screen, \<open>loadHistory\<close>.  There is no \<open>Array.isArray\<close> test: \<open>slice\<close> is
  called on whatever was parsed.  A string has a \<open>slice\<close> method, so the history becomes
  a string; \<open>null\<close>, a boolean, a number or an object has none and the call throws a
  TypeError, caught like every other failure.  The \<open>catch\<close> does not touch the history.
\<close>

definition native_load_failed :: "screen \<Rightarrow> js_error \<Rightarrow> screen" where
  "native_load_failed s e =
     s\<lparr>console := console s @ [e], alerts := alerts s @ [CouldNotLoad],
       isHistoryLoading := False\<rparr>"

definition native_loadHistory :: "bool \<Rightarrow> screen \<Rightarrow> load_result" where
  "native_loadHistory read_ok s =
     (if \<not> read_ok then Ready (native_load_failed s StorageError)
      else
        case slot s of
          None \<Rightarrow> Ready (s\<lparr>history := [], isHistoryLoading := False\<rparr>)
        | Some storedHistory \<Rightarrow>
            (case JSON_parse storedHistory of
               Inl e \<Rightarrow> Ready (native_load_failed s e)
             | Inr (JArray parsedHistory) \<Rightarrow>
                 (case as_HistoryItems (take MAX_HISTORY_ITEMS_DISPLAYED parsedHistory) of
                    None \<Rightarrow>
                      Unmodelled (JArray (take MAX_HISTORY_ITEMS_DISPLAYED parsedHistory))
                        (s\<lparr>isHistoryLoading := False\<rparr>)
                  | Some h \<Rightarrow> Ready (s\<lparr>history := h, isHistoryLoading := False\<rparr>))
             | Inr (JString str) \<Rightarrow>
                 Unmodelled (JString (take MAX_HISTORY_ITEMS_DISPLAYED str))
                   (s\<lparr>isHistoryLoading := False\<rparr>)
             | Inr _ \<Rightarrow> Ready (native_load_failed s TypeError)))"

text \<open>
  The second \<open>useEffect\<close>, run after a render in which \<open>history\<close> or
  \<open>isHistoryLoading\<close> changed.  \<open>write_ok\<close> says whether \<open>setItem\<close> succeeds.
\<close>

definition native_saveHistory :: "bool \<Rightarrow> screen \<Rightarrow> screen" where
  "native_saveHistory write_ok s =
     (if \<not> isHistoryLoading s then
        (if write_ok
         then s\<lparr>slot := Some (JSON_stringify (take MAX_HISTORY_ITEMS_DISPLAYED (history s)))\<rparr>
         else s\<lparr>console := console s @ [StorageError]\<rparr>)
      else s)"

definition web_saveHistory :: "bool \<Rightarrow> screen \<Rightarrow> screen" where
  "web_saveHistory write_ok s =
     (if \<not> isHistoryLoading s then
        (if write_ok
         then s\<lparr>slot := Some (JSON_stringify (take MAX_HISTORY_ITEMS_DISPLAYED (history s)))\<rparr>
         else s\<lparr>console := console s @ [StorageError], alerts := alerts s @ [CouldNotSave]\<rparr>)
      else s)"

section \<open>Input validation and conversion\<close>

definition isInputValid :: "string \<Rightarrow> bool" where
  "isInputValid inp = (let numericValue = parseFloat inp in
                       \<not> isNaN numericValue \<and> js_gt_zero numericValue)"


text \<open>\<open>Number.prototype.toString\<close> on a whole number: its decimal digits.\<close>

fun nat_toString :: "nat \<Rightarrow> string" where
  "nat_toString n =
     (if n < 10 then [''0123456789'' ! n]
      else nat_toString (n div 10) @ [''0123456789'' ! (n mod 10)])"

declare nat_toString.simps [simp del]

definition int_toString :: "int \<Rightarrow> string" where
  "int_toString i = (if i < 0 then CHR ''-'' # nat_toString (nat (- i)) else nat_toString (nat i))"

text \<open>
  The pair \<open>(mgdlValue, mmolValue)\<close> that \<open>handleConvert\<close> computes from the parsed
  value and the selected unit.
\<close>

definition convert :: "jsnum \<Rightarrow> Unit \<Rightarrow> jsnum \<times> jsnum" where
  "convert val u =
     (if u = MgDl then (val, js_div val CONVERSION_FACTOR)
      else (js_mul val CONVERSION_FACTOR, val))"

text \<open>The updater given to \<open>setHistory\<close>.\<close>

definition prepend_entry :: "HistoryItem \<Rightarrow> HistoryItem list \<Rightarrow> HistoryItem list" where
  "prepend_entry newEntry prevHistory = take MAX_HISTORY_ITEMS_DISPLAYED (newEntry # prevHistory)"

text \<open>
  \<open>handleConvert\<close> reads the clock twice, \<open>now_id\<close> for the id and \<open>now_ts\<close> for the
  timestamp.  On the native screen the input is emptied by the OK button of the result
  alert (\<open>native_resultOk\<close>), on the web screen after \<open>window.alert\<close> returns.
\<close>

definition new_entry :: "string \<Rightarrow> Unit \<Rightarrow> int \<Rightarrow> int \<Rightarrow> HistoryItem" where
  "new_entry inp u now_id now_ts =
     (let (mgdl, mmol) = convert (parseFloat inp) u in
      \<lparr>id = int_toString now_id, timestamp = now_ts, mgdlValue = mgdl, mmolValue = mmol\<rparr>)"

definition native_handleConvert :: "int \<Rightarrow> int \<Rightarrow> screen \<Rightarrow> screen" where
  "native_handleConvert now_id now_ts s =
     (if \<not> isInputValid (inputValue s) then s
      else
        let newEntry = new_entry (inputValue s) (selectedUnit s) now_id now_ts in
        s\<lparr>history := prepend_entry newEntry (history s),
          alerts := alerts s @ [ConversionResult (selectedUnit s) (mgdlValue newEntry)
                                                  (mmolValue newEntry)]\<rparr>)"


definition web_handleConvert :: "int \<Rightarrow> int \<Rightarrow> screen \<Rightarrow> screen" where
  "web_handleConvert now_id now_ts s =
     (if \<not> isInputValid (inputValue s) then s
      else
        let newEntry = new_entry (inputValue s) (selectedUnit s) now_id now_ts in
        s\<lparr>history := prepend_entry newEntry (history s),
          alerts := alerts s @ [ConversionResult (selectedUnit s) (mgdlValue newEntry)
                                                  (mmolValue newEntry)],
          inputValue := []\<rparr>)"

text \<open>
  \<open>handleClearHistory\<close>; \<open>confirmed\<close> is the user's answer to the confirmation.  The
  native handler does not touch the storage.  \<open>remove_ok\<close> says whether
  \<open>localStorage.removeItem\<close> returns or throws.
\<close>

definition native_handleClearHistory :: "bool \<Rightarrow> screen \<Rightarrow> screen" where
  "native_handleClearHistory confirmed s =
     (if confirmed then s\<lparr>history := [], inputValue := []\<rparr> else s)"

definition web_handleClearHistory :: "bool \<Rightarrow> bool \<Rightarrow> screen \<Rightarrow> screen" where
  "web_handleClearHistory confirmed remove_ok s =
     (if confirmed then
        (let s' = s\<lparr>history := [], inputValue := []\<rparr> in
         if remove_ok then s'\<lparr>slot := None\<rparr>
         else s'\<lparr>console := console s' @ [StorageError], alerts := alerts s' @ [CouldNotClear]\<rparr>)
      else s)"

section \<open>The history table\<close>

text \<open>
  One row of the table; \<open>formatTimestamp\<close> and \<open>toFixed\<close> are the host's date and number
  formatting.
\<close>

record row =
  row_key :: string
  time_text :: string
  mgdl_text :: string
  mmol_text :: string

definition renderHistoryItem ::
    "(int \<Rightarrow> string) \<Rightarrow> (jsnum \<Rightarrow> nat \<Rightarrow> string) \<Rightarrow> HistoryItem \<Rightarrow> row" where
  "renderHistoryItem formatTimestamp toFixed item =
     \<lparr>row_key = id item, time_text = formatTimestamp (timestamp item),
      mgdl_text = toFixed (mgdlValue item) 0, mmol_text = toFixed (mmolValue item) 2\<rparr>"

datatype history_view = Spinner | NoHistory | Rows "row list"

definition historyList ::
    "(int \<Rightarrow> string) \<Rightarrow> (jsnum \<Rightarrow> nat \<Rightarrow> string) \<Rightarrow> screen \<Rightarrow> history_view" where
  "historyList formatTimestamp toFixed s =
     (if isHistoryLoading s then Spinner
      else if length (history s) = 0 then NoHistory
      else Rows (map (renderHistoryItem formatTimestamp toFixed)
                     (take MAX_HISTORY_ITEMS_RENDERED (history s))))"

section \<open>Chart series\<close>

definition chartYUnit :: "Unit \<Rightarrow> Unit" where
  "chartYUnit selected = (if selected = MgDl then MmolL else MgDl)"

definition yValue_of :: "Unit \<Rightarrow> HistoryItem \<Rightarrow> jsnum" where
  "yValue_of cu item = (if cu = MgDl then mgdlValue item else mmolValue item)"

text \<open>
  \<open>[...history].sort((a, b) => a.timestamp - b.timestamp)\<close>: a stable sort by
  timestamp.
\<close>

definition sortedHistory :: "HistoryItem list \<Rightarrow> HistoryItem list" where
  "sortedHistory h = sort_key timestamp h"

record ChartDataPoint =
  pt_timestamp :: int
  timeLabel :: string
  pt_mgdlValue :: jsnum
  pt_mmolValue :: jsnum
  yValue :: jsnum

definition rechartsData ::
    "(int \<Rightarrow> string) \<Rightarrow> Unit \<Rightarrow> HistoryItem list \<Rightarrow> ChartDataPoint list option" where
  "rechartsData formatTimestampForChart selected h =
     (if length h < MIN_POINTS_FOR_CHART then None
      else Some (map (\<lambda>item. \<lparr>pt_timestamp = timestamp item,
                               timeLabel = formatTimestampForChart (timestamp item),
                               pt_mgdlValue = mgdlValue item, pt_mmolValue = mmolValue item,
                               yValue = yValue_of (chartYUnit selected) item\<rparr>)
                     (sortedHistory h)))"

text \<open>
  The \<open>forEach\<close> of \<open>chartKitData\<close>, from index \<open>i\<close> on; \<open>n\<close> is the length of the
  sorted history.
\<close>

fun thin_loop ::
    "(int \<Rightarrow> string) \<Rightarrow> Unit \<Rightarrow> nat \<Rightarrow> nat \<Rightarrow> nat \<Rightarrow> HistoryItem list
      \<Rightarrow> string list \<times> jsnum list \<Rightarrow> string list \<times> jsnum list" where
  "thin_loop fmt cu step n i [] acc = acc"
| "thin_loop fmt cu step n i (item # rest) (labels, dataPoints) =
     (if i = 0 \<or> i = n - 1 \<or> i mod step = 0 then
        thin_loop fmt cu step n (Suc i) rest
          (labels @ [fmt (timestamp item)], dataPoints @ [yValue_of cu item])
      else if n \<le> MAX_CHART_LABELS then
        thin_loop fmt cu step n (Suc i) rest
          (labels @ [fmt (timestamp item)], dataPoints @ [yValue_of cu item])
      else thin_loop fmt cu step n (Suc i) rest (labels, dataPoints))"

text \<open>
  The rest of \<open>chartKitData\<close> after its length test, on the sorted history.  Reading
  \<open>sortedHistory[0]\<close> of an empty array gives \<open>undefined\<close>, and its \<open>timestamp\<close> a
  TypeError.
\<close>

definition force_endpoints ::
    "(int \<Rightarrow> string) \<Rightarrow> Unit \<Rightarrow> HistoryItem list \<Rightarrow> string list \<times> jsnum list
      \<Rightarrow> js_error + string list \<times> jsnum list" where
  "force_endpoints fmt cu srt acc =
     (case acc of (labels, dataPoints) \<Rightarrow>
        if 0 < length labels \<and> 0 < length dataPoints then
          (case srt of
             [] \<Rightarrow> Inl TypeError
           | first # _ \<Rightarrow>
               let firstHistoryLabel = fmt (timestamp first);
                   (labels1, data1) =
                     (if hd labels \<noteq> firstHistoryLabel
                      then (firstHistoryLabel # labels, yValue_of cu first # dataPoints)
                      else (labels, dataPoints));
                   lastHistoryLabel = fmt (timestamp (last srt))
               in if last labels1 \<noteq> lastHistoryLabel
                  then Inr (labels1 @ [lastHistoryLabel], data1 @ [yValue_of cu (last srt)])
                  else Inr (labels1, data1))
        else Inr (labels, dataPoints))"

definition thinned_series ::
    "(int \<Rightarrow> string) \<Rightarrow> Unit \<Rightarrow> HistoryItem list
      \<Rightarrow> js_error + (string list \<times> jsnum list) option" where
  "thinned_series fmt cu srt =
     (let step = max 1 (length srt div MAX_CHART_LABELS) in
      case force_endpoints fmt cu srt
             (thin_loop fmt cu step (length srt) 0 srt ([], [])) of
        Inl e \<Rightarrow> Inl e
      | Inr (labels, dataPoints) \<Rightarrow>
          let finalLabels = take (length dataPoints) labels in
          if length finalLabels < MIN_POINTS_FOR_CHART then Inr None
          else Inr (Some (finalLabels, dataPoints)))"

definition chartKitData ::
    "(int \<Rightarrow> string) \<Rightarrow> Unit \<Rightarrow> HistoryItem list
      \<Rightarrow> js_error + (string list \<times> jsnum list) option" where
  "chartKitData formatTimestampForChart selected h =
     (if length h < MIN_POINTS_FOR_CHART then Inr None
      else thinned_series formatTimestampForChart (chartYUnit selected) (sortedHistory h))"

section \<open>Sequences of user actions\<close>














text \<open>The indices at which the \<open>forEach\<close> of \<open>chartKitData\<close> pushes a label.\<close>

definition labelled :: "nat \<Rightarrow> nat \<Rightarrow> nat \<Rightarrow> bool" where
  "labelled n step i = (i = 0 \<or> i = n - 1 \<or> i mod step = 0 \<or> n \<le> MAX_CHART_LABELS)"

text \<open>
  A screen that has finished loading with nothing stored, and the entries that the
  conversions of \<open>120\<close> mg/dL and of \<open>7\<close> mmol/L make.
\<close>

definition ready_screen :: screen where
  "ready_screen = (initial None)\<lparr>isHistoryLoading := False\<rparr>"

definition sample_item :: HistoryItem where
  "sample_item = new_entry ''120'' MgDl 1000 1000"

definition sample_item2 :: HistoryItem where
  "sample_item2 = new_entry ''7'' MmolL 2000 2001"

text \<open>
  A history of 50 entries, newest first: the entry made at time \<open>n\<close> has the values
  \<open>n\<close> mg/dL and \<open>n / 2\<close> mmol/L, for \<open>n\<close> from 50 down to 1.
\<close>

definition fifty_item :: "nat \<Rightarrow> HistoryItem" where
  "fifty_item n = \<lparr>id = nat_toString n, timestamp = int n, mgdlValue = Fin (real n),
                    mmolValue = Fin (real n / 2)\<rparr>"

definition fifty_history :: "HistoryItem list" where
  "fifty_history = map fifty_item (rev [1 ..< 51])"



text \<open>Whether the stored text is a JSON array, and whether it is a JSON string.\<close>

definition is_list :: "stored \<Rightarrow> bool" where
  "is_list st = (case st of JSON (JArray _) \<Rightarrow> True | _ \<Rightarrow> False)"

definition is_json_string :: "stored \<Rightarrow> bool" where
  "is_json_string st = (case st of JSON (JString _) \<Rightarrow> True | _ \<Rightarrow> False)"

definition is_json :: "stored \<Rightarrow> bool" where
  "is_json st = (case st of JSON _ \<Rightarrow> True | NotJSON _ \<Rightarrow> False)"

text \<open>
  A screen on which \<open>1e999\<close> has been typed and the entry that a conversion makes of
  it, and a screen on which \<open>1e308\<close> has been typed with mmol/L selected.
\<close>

definition overflow_screen :: screen where
  "overflow_screen = ready_screen\<lparr>inputValue := ''1e999''\<rparr>"

definition large_screen :: screen where
  "large_screen = ready_screen\<lparr>inputValue := ''1e308'', selectedUnit := MmolL\<rparr>"

definition overflow_item :: HistoryItem where
  "overflow_item = \<lparr>id = ''1000'', timestamp = 1000, mgdlValue = PInf, mmolValue = PInf\<rparr>"

text \<open>A screen that shows one entry, saved in the slot.\<close>

definition one_entry_screen :: screen where
  "one_entry_screen =
     ready_screen\<lparr>history := [sample_item], slot := Some (JSON_stringify [sample_item])\<rparr>"

section \<open>Properties\<close>

subsection \<open>Rounding to a double\<close>

lemma bitlen_numeral: "bitlen (numeral n) = bitlen (numeral n div 2) + 1"
  by (subst compute_bitlen) simp

lemma bitlen_one: "bitlen 1 = 1"
  by (subst compute_bitlen) simp

lemmas double_eval = round_double_def expo_def pow2_def round_half_even_def bitlen_numeral
  bitlen_one to_double_def DBL_OVERFLOW_def

lemmas parse_eval = parseFloat_def unsigned_literal_def starts_with_def is_space_def
  is_digit_def exponent_part_def digits_val_def digit_val_def pow10_def

lemma CONVERSION_FACTOR_value: "CONVERSION_FACTOR = 2535836212683971 / 2 ^ 47"
  by (simp add: CONVERSION_FACTOR_def double_eval)

lemma pow2_powi: "pow2 e = 2 powi e"
  by (simp add: pow2_def power_int_def field_simps)

lemma pow2_pos: "0 < pow2 e"
  by (simp add: pow2_powi)

lemma pow2_mono: "e \<le> e' \<Longrightarrow> pow2 e \<le> pow2 e'"
  by (simp add: pow2_powi power_int_increasing)

lemma pow2_less_imp: "pow2 e < pow2 e' \<Longrightarrow> e < e'"
  using pow2_mono [of e' e] by (cases "e < e'") auto

lemma pow2_diff: "pow2 (e - int n) = pow2 e / 2 ^ n"
  by (simp add: pow2_powi power_int_diff)

text \<open>\<open>expo a\<close> is the exponent of the binade of \<open>a\<close>.\<close>

lemma expo_bounds:
  assumes "0 < a"
  shows "pow2 (expo a) \<le> a \<and> a < pow2 (expo a + 1)"
proof (cases "1 \<le> a")
  case True
  let ?x = "\<lfloor>a\<rfloor>"
  have x: "0 < ?x"
    using True by simp
  have k: "1 \<le> bitlen ?x"
    using x bitlen_eq_zero_iff [of ?x] bitlen_nonneg [of ?x] by linarith
  from bitlen_bounds [OF x]
  have lo: "2 ^ nat (bitlen ?x - 1) \<le> ?x" and hi: "?x < 2 ^ nat (bitlen ?x)"
    by simp_all
  have "real_of_int (2 ^ nat (bitlen ?x - 1)) \<le> real_of_int ?x"
    using lo by linarith
  then have l: "(2::real) ^ nat (bitlen ?x - 1) \<le> a"
    by (simp add: le_floor_iff)
  have "?x + 1 \<le> 2 ^ nat (bitlen ?x)"
    using hi by linarith
  then have "real_of_int (?x + 1) \<le> real_of_int (2 ^ nat (bitlen ?x))"
    by linarith
  then have "real_of_int ?x + 1 \<le> 2 ^ nat (bitlen ?x)"
    by simp
  moreover have "a < real_of_int ?x + 1"
    by linarith
  ultimately have h: "a < (2::real) ^ nat (bitlen ?x)"
    by linarith
  show ?thesis
    using True k l h by (simp add: expo_def pow2_def)
next
  case False
  let ?m = "\<lceil>1 / a\<rceil>"
  let ?x = "?m - 1"
  have "1 < 1 / a"
    using False assms by simp
  then have m: "2 \<le> ?m"
    by (simp add: le_ceiling_iff)
  then have x: "0 < ?x"
    by simp
  have k: "1 \<le> bitlen ?x"
    using x bitlen_eq_zero_iff [of ?x] bitlen_nonneg [of ?x] by linarith
  from bitlen_bounds [OF x]
  have lo: "2 ^ nat (bitlen ?x - 1) \<le> ?x" and hi: "?x < 2 ^ nat (bitlen ?x)"
    by simp_all
  have "?m \<le> 2 ^ nat (bitlen ?x)"
    using hi by linarith
  then have "real_of_int ?m \<le> real_of_int (2 ^ nat (bitlen ?x))"
    by linarith
  then have "real_of_int ?m \<le> 2 ^ nat (bitlen ?x)"
    by simp
  moreover have "1 / a \<le> real_of_int ?m"
    by (rule le_of_int_ceiling)
  ultimately have "1 / a \<le> 2 ^ nat (bitlen ?x)"
    by linarith
  then have l: "1 / 2 ^ nat (bitlen ?x) \<le> a"
    using assms by (simp add: field_simps)
  have "real_of_int (2 ^ nat (bitlen ?x - 1)) \<le> real_of_int ?x"
    using lo by linarith
  moreover have "real_of_int ?x < 1 / a"
    by linarith
  ultimately have "2 ^ nat (bitlen ?x - 1) < 1 / a"
    by simp
  then have h: "a < 1 / 2 ^ nat (bitlen ?x - 1)"
    using assms by (simp add: field_simps)
  show ?thesis
  proof (cases "bitlen ?x = 1")
    case True
    then show ?thesis
      using False l h by (simp add: expo_def pow2_def)
  next
    case b: False
    then have "2 \<le> bitlen ?x"
      using k by simp
    then show ?thesis
      using False l h by (simp add: expo_def pow2_def nat_diff_distrib)
  qed
qed

lemma round_half_even_error: "\<bar>real_of_int (round_half_even y) - y\<bar> \<le> 1 / 2"
  unfolding round_half_even_def Let_def by (auto simp add: abs_le_iff)

text \<open>
  In the normal range the rounding moves a value by at most half a unit in the last
  place, that is by at most the fraction \<open>2^-53\<close> of its magnitude.
\<close>

lemma round_double_rel:
  assumes "pow2 (- 1022) \<le> \<bar>x\<bar>"
  shows "\<bar>round_double x - x\<bar> \<le> \<bar>x\<bar> / 2 ^ 53"
proof -
  let ?a = "\<bar>x\<bar>"
  have a: "0 < ?a"
    using assms pow2_pos [of "- 1022"] by linarith
  then have x0: "x \<noteq> 0"
    by simp
  note b = expo_bounds [OF a]
  have "pow2 (- 1022) < pow2 (expo ?a + 1)"
    using assms b by linarith
  then have "- 1022 < expo ?a + 1"
    by (rule pow2_less_imp)
  then have e: "max (expo ?a) (- 1022) = expo ?a"
    by simp
  let ?q = "pow2 (expo ?a - 52)"
  have q: "0 < ?q"
    by (rule pow2_pos)
  have q52: "?q = pow2 (expo ?a) / 2 ^ 52"
    using pow2_diff [of "expo ?a" 52] by simp
  let ?r = "real_of_int (round_half_even (?a / ?q)) * ?q"
  have rd: "round_double x = sgn x * ?r"
    using x0 by (simp add: round_double_def Let_def e)
  have "?r - ?a = (real_of_int (round_half_even (?a / ?q)) - ?a / ?q) * ?q"
    using q by (simp add: field_simps)
  then have "\<bar>?r - ?a\<bar> = \<bar>real_of_int (round_half_even (?a / ?q)) - ?a / ?q\<bar> * ?q"
    using q by (simp add: abs_mult)
  also have "\<dots> \<le> 1 / 2 * ?q"
    using round_half_even_error [of "?a / ?q"] q by (simp add: mult_right_mono)
  also have "\<dots> = pow2 (expo ?a) / 2 ^ 53"
    by (simp add: q52)
  also have "\<dots> \<le> ?a / 2 ^ 53"
    using b by (simp add: divide_right_mono)
  finally have "\<bar>?r - ?a\<bar> \<le> ?a / 2 ^ 53" .
  moreover have "\<bar>round_double x - x\<bar> = \<bar>?r - ?a\<bar>"
  proof (cases "0 < x")
    case True
    then show ?thesis by (simp add: rd)
  next
    case False
    then have "x < 0" using x0 by simp
    then show ?thesis by (simp add: rd abs_minus_commute)
  qed
  ultimately show ?thesis
    by simp
qed

subsection \<open>Unit conversion\<close>

lemma parseFloat_120: "parseFloat ''120'' = Fin 120"
  by (simp add: parse_eval double_eval)



lemma parseFloat_1e308:
  "parseFloat ''1e308'' = Fin 100000000000000001097906362944045541740492309677311846336810682903157585404911491537163328978494688899061249669721172515611590283743140088328307009198146046031271664502933027185697489699588559043338384466165001178426897626212945177628091195786707458122783970171784415105291802893207873272974885715430223118336"
  by (simp add: parse_eval double_eval)

text \<open>
  Division by and multiplication with the conversion factor, in the normal range: the
  double that the program computes is within the fraction \<open>10^-9\<close> of the real
  quotient by, or product with, 18.0182.
\<close>

lemma quotient_close:
  assumes "0 < v" and "pow2 (- 1022) \<le> v / CONVERSION_FACTOR"
  shows "\<bar>round_double (v / CONVERSION_FACTOR) - v / 18.0182\<bar> \<le> v / 18.0182 / 10 ^ 9"
proof -
  define t where "t = v / CONVERSION_FACTOR"
  define m where "m = round_double t"
  have k: "t = v * (140737488355328 / 2535836212683971)"
    by (simp add: t_def CONVERSION_FACTOR_value)
  have t: "0 < t"
    using assms(1) by (simp add: k)
  have at: "\<bar>t\<bar> = t"
    using t by (rule abs_of_pos)
  have "pow2 (- 1022) \<le> t"
    unfolding t_def by (rule assms(2))
  then have "pow2 (- 1022) \<le> \<bar>t\<bar>"
    unfolding at .
  then have "\<bar>m - t\<bar> \<le> \<bar>t\<bar> / 2 ^ 53"
    unfolding m_def by (rule round_double_rel)
  then have "\<bar>m - t\<bar> \<le> t / 9007199254740992"
    unfolding at by simp
  then have r: "m - t \<le> t / 9007199254740992 \<and> - (m - t) \<le> t / 9007199254740992"
    by (simp only: abs_le_iff)
  have c: "v / 18.0182 = v * (10000 / 180182)"
    by simp
  have "m - v * (10000 / 180182) \<le> v * (10000 / 180182) / 1000000000
        \<and> - (m - v * (10000 / 180182)) \<le> v * (10000 / 180182) / 1000000000"
    using r assms(1) unfolding k by linarith
  then have "\<bar>m - v * (10000 / 180182)\<bar> \<le> v * (10000 / 180182) / 1000000000"
    by (simp only: abs_le_iff)
  then have "\<bar>m - v * (10000 / 180182)\<bar> \<le> v * (10000 / 180182) / 10 ^ 9"
    by simp
  then show ?thesis
    unfolding m_def t_def c .
qed

lemma product_close:
  assumes "0 < v" and "pow2 (- 1022) \<le> v * CONVERSION_FACTOR"
  shows "\<bar>round_double (v * CONVERSION_FACTOR) - v * 18.0182\<bar> \<le> v * 18.0182 / 10 ^ 9"
proof -
  define t where "t = v * CONVERSION_FACTOR"
  define m where "m = round_double t"
  have k: "t = v * (2535836212683971 / 140737488355328)"
    by (simp add: t_def CONVERSION_FACTOR_value)
  have t: "0 < t"
    using assms(1) by (simp add: k)
  have at: "\<bar>t\<bar> = t"
    using t by (rule abs_of_pos)
  have "pow2 (- 1022) \<le> t"
    unfolding t_def by (rule assms(2))
  then have "pow2 (- 1022) \<le> \<bar>t\<bar>"
    unfolding at .
  then have "\<bar>m - t\<bar> \<le> \<bar>t\<bar> / 2 ^ 53"
    unfolding m_def by (rule round_double_rel)
  then have "\<bar>m - t\<bar> \<le> t / 9007199254740992"
    unfolding at by simp
  then have r: "m - t \<le> t / 9007199254740992 \<and> - (m - t) \<le> t / 9007199254740992"
    by (simp only: abs_le_iff)
  have c: "v * 18.0182 = v * (180182 / 10000)"
    by simp
  have "m - v * (180182 / 10000) \<le> v * (180182 / 10000) / 1000000000
        \<and> - (m - v * (180182 / 10000)) \<le> v * (180182 / 10000) / 1000000000"
    using r assms(1) unfolding k by linarith
  then have "\<bar>m - v * (180182 / 10000)\<bar> \<le> v * (180182 / 10000) / 1000000000"
    by (simp only: abs_le_iff)
  then have "\<bar>m - v * (180182 / 10000)\<bar> \<le> v * (180182 / 10000) / 10 ^ 9"
    by simp
  then show ?thesis
    unfolding m_def t_def c .
qed

lemma to_double_in_range:
  "0 < x \<Longrightarrow> x < DBL_OVERFLOW \<Longrightarrow> to_double x = Fin (round_double x)"
  by (simp add: to_double_def DBL_OVERFLOW_def)

text \<open>
  C1, as stated, fails.  The text \<open>1e308\<close>, five characters long, is a valid input
  and parses to a positive finite number; with mmol/L selected its product with the
  conversion factor is beyond the range of a double, so \<open>mgdlValue\<close> is infinite on
  both screens.  At the other end of the range, the quotient of the positive double
  \<open>9 * 2^-1074\<close> by the conversion factor rounds to zero.
\<close>

theorem conversion_overflows:
  "isInputValid ''1e308''
   \<and> is_finite (parseFloat ''1e308'')
   \<and> js_gt_zero (parseFloat ''1e308'')
   \<and> convert (parseFloat ''1e308'') MmolL = (PInf, parseFloat ''1e308'')
   \<and> map mgdlValue (history (web_handleConvert 1000 1000 large_screen)) = [PInf]
   \<and> map mgdlValue (history (native_handleConvert 1000 1000 large_screen)) = [PInf]
   \<and> convert (Fin (9 / 2 ^ 1074)) MgDl = (Fin (9 / 2 ^ 1074), Fin 0)"
proof -
  have p: "is_finite (parseFloat ''1e308'')" "js_gt_zero (parseFloat ''1e308'')"
    by (simp_all add: parseFloat_1e308 is_finite_def js_gt_zero_def)
  have v: "isInputValid ''1e308''"
    by (simp add: isInputValid_def parseFloat_1e308 isNaN_def js_gt_zero_def)
  have c: "convert (parseFloat ''1e308'') MmolL = (PInf, parseFloat ''1e308'')"
    by (simp add: parseFloat_1e308 convert_def js_mul_def CONVERSION_FACTOR_value
          to_double_def DBL_OVERFLOW_def)
  have s: "inputValue large_screen = ''1e308''" "selectedUnit large_screen = MmolL"
    "history large_screen = []"
    by (simp_all add: large_screen_def ready_screen_def initial_def)
  have e: "mgdlValue (new_entry ''1e308'' MmolL 1000 1000) = PInf"
    by (simp add: new_entry_def c)
  have w: "map mgdlValue (history (web_handleConvert 1000 1000 large_screen)) = [PInf]"
    by (simp add: web_handleConvert_def s v e prepend_entry_def
          MAX_HISTORY_ITEMS_DISPLAYED_def Let_def)
  have n: "map mgdlValue (history (native_handleConvert 1000 1000 large_screen)) = [PInf]"
    by (simp add: native_handleConvert_def s v e prepend_entry_def
          MAX_HISTORY_ITEMS_DISPLAYED_def Let_def)
  have u: "convert (Fin (9 / 2 ^ 1074)) MgDl = (Fin (9 / 2 ^ 1074), Fin 0)"
    by (simp add: convert_def js_div_def CONVERSION_FACTOR_value double_eval)
  from v p c w n u show ?thesis
    by blast
qed

text \<open>
  C1, amended.  Let \<open>v\<close> be positive.  Converting from mg/dL gives \<open>mgdlValue = v\<close>
  and, if the quotient of \<open>v\<close> by the conversion factor lies in the normal range of a
  double (at least \<open>2^-1022\<close> and below the overflow threshold), a finite \<open>mmolValue\<close>
  within the relative tolerance \<open>10^-9\<close> of \<open>v / 18.0182\<close>.  Converting from mmol/L
  gives \<open>mmolValue = v\<close> and, if the product of \<open>v\<close> with the conversion factor lies
  in the normal range, a finite \<open>mgdlValue\<close> within the relative tolerance \<open>10^-9\<close>
  of \<open>v * 18.0182\<close>.  These are the values of the entry that \<open>handleConvert\<close> puts in
  front of the history, on both screens, when the input parses to \<open>v\<close>.
\<close>

theorem conversion_values:
  assumes "0 < v"
  shows "fst (convert (Fin v) MgDl) = Fin v
         \<and> snd (convert (Fin v) MmolL) = Fin v
         \<and> (pow2 (- 1022) \<le> v / CONVERSION_FACTOR \<and> v / CONVERSION_FACTOR < DBL_OVERFLOW
              \<longrightarrow> (\<exists>m. convert (Fin v) MgDl = (Fin v, Fin m)
                        \<and> \<bar>m - v / 18.0182\<bar> \<le> v / 18.0182 / 10 ^ 9))
         \<and> (pow2 (- 1022) \<le> v * CONVERSION_FACTOR \<and> v * CONVERSION_FACTOR < DBL_OVERFLOW
              \<longrightarrow> (\<exists>g. convert (Fin v) MmolL = (Fin g, Fin v)
                        \<and> \<bar>g - v * 18.0182\<bar> \<le> v * 18.0182 / 10 ^ 9))
         \<and> (parseFloat inp = Fin v \<longrightarrow>
              history (web_handleConvert a b (s\<lparr>inputValue := inp\<rparr>)) =
                take 100 (\<lparr>id = int_toString a, timestamp = b,
                            mgdlValue = fst (convert (Fin v) (selectedUnit s)),
                            mmolValue = snd (convert (Fin v) (selectedUnit s))\<rparr> # history s)
              \<and> history (native_handleConvert a b (s\<lparr>inputValue := inp\<rparr>)) =
                take 100 (\<lparr>id = int_toString a, timestamp = b,
                            mgdlValue = fst (convert (Fin v) (selectedUnit s)),
                            mmolValue = snd (convert (Fin v) (selectedUnit s))\<rparr> # history s))"
proof -
  have cf: "0 < CONVERSION_FACTOR"
    by (simp add: CONVERSION_FACTOR_value)
  have q: "0 < v / CONVERSION_FACTOR" and p: "0 < v * CONVERSION_FACTOR"
    using assms cf by simp_all
  have c1: "fst (convert (Fin v) MgDl) = Fin v" "snd (convert (Fin v) MmolL) = Fin v"
    by (simp_all add: convert_def)
  have c2: "\<exists>m. convert (Fin v) MgDl = (Fin v, Fin m)
               \<and> \<bar>m - v / 18.0182\<bar> \<le> v / 18.0182 / 10 ^ 9"
    if "pow2 (- 1022) \<le> v / CONVERSION_FACTOR" "v / CONVERSION_FACTOR < DBL_OVERFLOW"
  proof -
    have "convert (Fin v) MgDl = (Fin v, Fin (round_double (v / CONVERSION_FACTOR)))"
      by (simp add: convert_def js_div_def to_double_in_range [OF q that(2)])
    with quotient_close [OF assms that(1)] show ?thesis
      by blast
  qed
  have c3: "\<exists>g. convert (Fin v) MmolL = (Fin g, Fin v)
               \<and> \<bar>g - v * 18.0182\<bar> \<le> v * 18.0182 / 10 ^ 9"
    if "pow2 (- 1022) \<le> v * CONVERSION_FACTOR" "v * CONVERSION_FACTOR < DBL_OVERFLOW"
  proof -
    have "convert (Fin v) MmolL = (Fin (round_double (v * CONVERSION_FACTOR)), Fin v)"
      by (simp add: convert_def js_mul_def to_double_in_range [OF p that(2)])
    with product_close [OF assms that(1)] show ?thesis
      by blast
  qed
  have h: "history (web_handleConvert a b (s\<lparr>inputValue := inp\<rparr>)) =
             take 100 (\<lparr>id = int_toString a, timestamp = b,
                         mgdlValue = fst (convert (Fin v) (selectedUnit s)),
                         mmolValue = snd (convert (Fin v) (selectedUnit s))\<rparr> # history s)
           \<and> history (native_handleConvert a b (s\<lparr>inputValue := inp\<rparr>)) =
             take 100 (\<lparr>id = int_toString a, timestamp = b,
                         mgdlValue = fst (convert (Fin v) (selectedUnit s)),
                         mmolValue = snd (convert (Fin v) (selectedUnit s))\<rparr> # history s)"
    if "parseFloat inp = Fin v"
  proof -
    have "isInputValid inp"
      using assms that by (simp add: isInputValid_def isNaN_def js_gt_zero_def)
    then show ?thesis
      using that
      by (simp add: web_handleConvert_def native_handleConvert_def new_entry_def
            prepend_entry_def MAX_HISTORY_ITEMS_DISPLAYED_def Let_def split: prod.splits)
  qed
  from c1 c2 c3 h show ?thesis
    by blast
qed

theorem conversion_values_witness:
  "(\<exists>m. convert (Fin 120) MgDl = (Fin 120, Fin m)
        \<and> \<bar>m - 120 / 18.0182\<bar> \<le> 120 / 18.0182 / 10 ^ 9)
   \<and> (\<exists>g. convert (Fin 120) MmolL = (Fin g, Fin 120)
        \<and> \<bar>g - 120 * 18.0182\<bar> \<le> 120 * 18.0182 / 10 ^ 9)
   \<and> history (web_handleConvert 1000 1000 (ready_screen\<lparr>inputValue := ''120''\<rparr>)) =
       [sample_item]"
proof -
  have h: "(0::real) < 120"
    by simp
  note t = conversion_values [OF h, of "''120''" 1000 1000 ready_screen]
  have r1: "pow2 (- 1022) \<le> 120 / CONVERSION_FACTOR \<and> 120 / CONVERSION_FACTOR < DBL_OVERFLOW"
    by (simp add: CONVERSION_FACTOR_value pow2_def DBL_OVERFLOW_def)
  have r2: "pow2 (- 1022) \<le> 120 * CONVERSION_FACTOR \<and> 120 * CONVERSION_FACTOR < DBL_OVERFLOW"
    by (simp add: CONVERSION_FACTOR_value pow2_def DBL_OVERFLOW_def)
  have c1: "\<exists>m. convert (Fin 120) MgDl = (Fin 120, Fin m)
               \<and> \<bar>m - 120 / 18.0182\<bar> \<le> 120 / 18.0182 / 10 ^ 9"
    using t r1 by blast
  have c2: "\<exists>g. convert (Fin 120) MmolL = (Fin g, Fin 120)
               \<and> \<bar>g - 120 * 18.0182\<bar> \<le> 120 * 18.0182 / 10 ^ 9"
    using t r2 by blast
  have s: "history ready_screen = []" "selectedUnit ready_screen = MgDl"
    by (simp_all add: ready_screen_def initial_def)
  have "history (web_handleConvert 1000 1000 (ready_screen\<lparr>inputValue := ''120''\<rparr>)) =
          take 100 (\<lparr>id = int_toString 1000, timestamp = 1000,
                      mgdlValue = fst (convert (Fin 120) (selectedUnit ready_screen)),
                      mmolValue = snd (convert (Fin 120) (selectedUnit ready_screen))\<rparr>
                    # history ready_screen)"
    using t parseFloat_120 by blast
  then have "history (web_handleConvert 1000 1000 (ready_screen\<lparr>inputValue := ''120''\<rparr>)) =
               [sample_item]"
    by (simp add: s sample_item_def new_entry_def parseFloat_120 split: prod.splits)
  with c1 c2 show ?thesis
    by blast
qed

lemma new_entry_timestamp: "timestamp (new_entry inp u a b) = b"
  by (simp add: new_entry_def Let_def split: prod.splits)

subsection \<open>Chart series\<close>

lemma sortedHistory_length: "length (sortedHistory h) = length h"
  by (simp add: sortedHistory_def)

lemma sortedHistory_ascending: "sorted (map timestamp (sortedHistory h))"
  by (simp add: sortedHistory_def)

lemma sortedHistory_set: "set (sortedHistory h) = set h"
  by (simp add: sortedHistory_def)

lemma thin_loop_Cons:
  "thin_loop fmt cu step n i (x # xs) (ls, ds) =
     (if labelled n step i
      then thin_loop fmt cu step n (Suc i) xs (ls @ [fmt (timestamp x)], ds @ [yValue_of cu x])
      else thin_loop fmt cu step n (Suc i) xs (ls, ds))"
  by (simp add: labelled_def)

text \<open>The loop keeps exactly the items at the labelled indices, in order.\<close>

lemma thin_loop_zip:
  "thin_loop fmt cu step n i xs (ls, ds) =
     (ls @ map (\<lambda>e. fmt (timestamp e))
             (map snd (filter (\<lambda>p. labelled n step (fst p)) (zip [i ..< i + length xs] xs))),
      ds @ map (yValue_of cu)
             (map snd (filter (\<lambda>p. labelled n step (fst p)) (zip [i ..< i + length xs] xs))))"
proof (induction xs arbitrary: i ls ds)
  case Nil
  then show ?case by simp
next
  case (Cons x xs)
  have u: "[i ..< Suc (i + length xs)] = i # [Suc i ..< Suc (i + length xs)]"
    by (subst upt_rec) simp
  show ?case
    by (simp add: Cons.IH u thin_loop_Cons del: upt_Suc thin_loop.simps)
qed

lemma zip_upt_filter:
  "map snd (filter (\<lambda>p. P (fst p)) (zip [0 ..< length xs] xs))
     = map ((!) xs) (filter P [0 ..< length xs])"
proof -
  have "zip [0 ..< length xs] xs = map (\<lambda>i. (i, xs ! i)) [0 ..< length xs]"
    by (rule nth_equalityI) simp_all
  then show ?thesis
    by (simp add: filter_map comp_def)
qed

lemma thin_loop_picks:
  "thin_loop fmt cu step (length xs) 0 xs ([], []) =
     (map (\<lambda>i. fmt (timestamp (xs ! i))) (filter (labelled (length xs) step) [0 ..< length xs]),
      map (\<lambda>i. yValue_of cu (xs ! i)) (filter (labelled (length xs) step) [0 ..< length xs]))"
  by (simp add: thin_loop_zip zip_upt_filter comp_def)

lemma labelled_50: "filter (labelled 50 8) [0 ..< 50] = [0, 8, 16, 24, 32, 40, 48, 49]"
  by (simp add: labelled_def MAX_CHART_LABELS_def upt_rec)

lemma sortedHistory_mset: "mset (sortedHistory h) = mset h"
  by (simp add: sortedHistory_def)

lemma sortedHistory_stable:
  "filter (\<lambda>e. timestamp e = k) (sortedHistory h) = filter (\<lambda>e. timestamp e = k) h"
  by (simp add: sortedHistory_def sort_key_stable)

text \<open>
  The first entry of the sorted history is one of earliest time and the last entry one
  of latest time among the entries of the history.
\<close>

lemma sortedHistory_ends:
  assumes "e \<in> set h"
  shows "timestamp (hd (sortedHistory h)) \<le> timestamp e"
    and "timestamp e \<le> timestamp (last (sortedHistory h))"
proof -
  let ?xs = "sortedHistory h"
  have m: "e \<in> set ?xs"
    using assms by (simp add: sortedHistory_set)
  then have ne: "?xs \<noteq> []"
    by auto
  then obtain i where i: "i < length ?xs" "?xs ! i = e"
    using m by (auto simp add: in_set_conv_nth)
  have s: "sorted (map timestamp ?xs)"
    by (rule sortedHistory_ascending)
  have "map timestamp ?xs ! 0 \<le> map timestamp ?xs ! i"
    using s i(1) by (intro sorted_nth_mono) simp_all
  then show "timestamp (hd ?xs) \<le> timestamp e"
    using i ne by (simp add: hd_conv_nth)
  have "map timestamp ?xs ! i \<le> map timestamp ?xs ! (length ?xs - 1)"
    using s i(1) by (intro sorted_nth_mono) simp_all
  then show "timestamp e \<le> timestamp (last ?xs)"
    using i ne by (simp add: last_conv_nth)
qed

text \<open>
  With two entries or more the native builder always returns a series: the labels and
  the values of the entries of the sorted history at the labelled indices.  The first
  and the last index are among them, so the forced endpoints are never added.
\<close>

lemma labelled_indices:
  assumes "2 \<le> n" and "1 \<le> step"
  shows "hd (filter (labelled n step) [0 ..< n]) = 0"
    and "last (filter (labelled n step) [0 ..< n]) = n - 1"
    and "2 \<le> length (filter (labelled n step) [0 ..< n])"
    and "set (filter (labelled n step) [0 ..< n]) \<subseteq> {0 ..< n}"
proof -
  let ?P = "labelled n step"
  have u: "[0 ..< n] = 0 # [1 ..< n - 1] @ [n - 1]"
  proof -
    have "[0 ..< n] = 0 # [1 ..< n]"
      using assms(1) by (simp add: upt_conv_Cons)
    moreover have "[1 ..< n] = [1 ..< n - 1] @ [n - 1]"
      using assms(1) upt_Suc_append [of 1 "n - 2"]
      by (cases n) (auto simp add: numeral_2_eq_2)
    ultimately show ?thesis
      by simp
  qed
  have p: "?P 0" "?P (n - 1)"
    by (simp_all add: labelled_def)
  have f: "filter ?P [0 ..< n] = 0 # filter ?P [1 ..< n - 1] @ [n - 1]"
    using p by (subst u) simp
  show "hd (filter ?P [0 ..< n]) = 0"
    by (simp add: f)
  show "last (filter ?P [0 ..< n]) = n - 1"
    by (simp add: f)
  show "2 \<le> length (filter ?P [0 ..< n])"
    by (simp add: f)
  show "set (filter ?P [0 ..< n]) \<subseteq> {0 ..< n}"
    by auto
qed

lemma thinned_series_general:
  assumes "2 \<le> length xs"
  shows "thinned_series fmt cu xs =
           Inr (Some (map (\<lambda>i. fmt (timestamp (xs ! i)))
                        (filter (labelled (length xs) (max 1 (length xs div MAX_CHART_LABELS)))
                           [0 ..< length xs]),
                      map (\<lambda>i. yValue_of cu (xs ! i))
                        (filter (labelled (length xs) (max 1 (length xs div MAX_CHART_LABELS)))
                           [0 ..< length xs])))"
proof -
  let ?n = "length xs"
  let ?step = "max 1 (?n div MAX_CHART_LABELS)"
  let ?idx = "filter (labelled ?n ?step) [0 ..< ?n]"
  let ?ls = "map (\<lambda>i. fmt (timestamp (xs ! i))) ?idx"
  let ?ds = "map (\<lambda>i. yValue_of cu (xs ! i)) ?idx"
  have st: "1 \<le> ?step"
    by simp
  note ix = labelled_indices [OF assms st]
  have ne: "?idx \<noteq> []"
    using ix(3) by auto
  obtain x rest where xs: "xs = x # rest"
    using assms by (cases xs) auto
  have x0: "xs ! 0 = x"
    by (simp add: xs)
  have xl: "last xs = xs ! (?n - 1)"
    using xs last_conv_nth [of xs] by simp
  have loop: "thin_loop fmt cu ?step ?n 0 xs ([], []) = (?ls, ?ds)"
    by (rule thin_loop_picks)
  have hl: "hd ?ls = fmt (timestamp x)"
    using ne ix(1) x0 by (simp add: hd_map)
  have ll: "last ?ls = fmt (timestamp (last xs))"
    using ne ix(2) xl by (simp add: last_map)
  have fe: "force_endpoints fmt cu xs (?ls, ?ds) = Inr (?ls, ?ds)"
    using ne hl ll by (simp add: force_endpoints_def xs)
  have len: "\<not> length ?ls < MIN_POINTS_FOR_CHART"
    using ix(3) by (simp add: MIN_POINTS_FOR_CHART_def)
  show ?thesis
    unfolding thinned_series_def Let_def loop fe using len by simp
qed

lemma chartKitData_series:
  assumes "2 \<le> length h"
  shows "chartKitData fmt sel h =
           Inr (Some (map (\<lambda>i. fmt (timestamp (sortedHistory h ! i)))
                        (filter (labelled (length h) (max 1 (length h div MAX_CHART_LABELS)))
                           [0 ..< length h]),
                      map (\<lambda>i. yValue_of (chartYUnit sel) (sortedHistory h ! i))
                        (filter (labelled (length h) (max 1 (length h div MAX_CHART_LABELS)))
                           [0 ..< length h])))"
proof -
  have n: "2 \<le> length (sortedHistory h)"
    using assms by (simp add: sortedHistory_length)
  have "chartKitData fmt sel h = thinned_series fmt (chartYUnit sel) (sortedHistory h)"
    using assms by (simp add: chartKitData_def MIN_POINTS_FOR_CHART_def)
  then show ?thesis
    using thinned_series_general [OF n, of fmt "chartYUnit sel"]
    by (simp add: sortedHistory_length)
qed

text \<open>
  C6.  For a history of 50 entries the native chart builder returns a series built
  from the history sorted by time (ascending, a rearrangement of the history that keeps
  entries of equal time in their order): step 8, the entries at the indices
  0, 8, ..., 48 and 49.  Its first label and value are those of the first entry of the
  sorted history, an entry of the history of earliest time, and its last label and
  value are those of the last entry of the sorted history, an entry of latest time.
  It has 8 labels and as many values.
\<close>

theorem label_thinning_of_50:
  assumes "length h = 50"
  shows "sorted (map timestamp (sortedHistory h))
         \<and> mset (sortedHistory h) = mset h
         \<and> (\<forall>k. filter (\<lambda>e. timestamp e = k) (sortedHistory h)
                   = filter (\<lambda>e. timestamp e = k) h)
         \<and> hd (sortedHistory h) \<in> set h
         \<and> last (sortedHistory h) \<in> set h
         \<and> (\<forall>e \<in> set h. timestamp (hd (sortedHistory h)) \<le> timestamp e
                          \<and> timestamp e \<le> timestamp (last (sortedHistory h)))
         \<and> (\<exists>labels dataPoints.
               chartKitData fmt sel h = Inr (Some (labels, dataPoints))
               \<and> labels = map (\<lambda>i. fmt (timestamp (sortedHistory h ! i)))
                             [0, 8, 16, 24, 32, 40, 48, 49]
               \<and> dataPoints = map (\<lambda>i. yValue_of (chartYUnit sel) (sortedHistory h ! i))
                                 [0, 8, 16, 24, 32, 40, 48, 49]
               \<and> length labels \<le> 8
               \<and> length labels = length dataPoints
               \<and> hd labels = fmt (timestamp (hd (sortedHistory h)))
               \<and> last labels = fmt (timestamp (last (sortedHistory h)))
               \<and> hd dataPoints = yValue_of (chartYUnit sel) (hd (sortedHistory h))
               \<and> last dataPoints = yValue_of (chartYUnit sel) (last (sortedHistory h)))"
proof -
  let ?xs = "sortedHistory h"
  have n: "length ?xs = 50"
    using assms by (simp add: sortedHistory_length)
  then have ne: "?xs \<noteq> []"
    by auto
  have hd: "hd ?xs = ?xs ! 0"
    using ne by (simp add: hd_conv_nth)
  have la: "last ?xs = ?xs ! 49"
    using ne n last_conv_nth [of ?xs] by auto
  have m: "hd ?xs \<in> set h" "last ?xs \<in> set h"
    using ne hd_in_set [of ?xs] last_in_set [of ?xs] by (simp_all add: sortedHistory_set)
  have step: "max 1 (length h div MAX_CHART_LABELS) = 8"
    by (simp add: assms MAX_CHART_LABELS_def)
  have "2 \<le> length h"
    by (simp add: assms)
  from chartKitData_series [OF this, of fmt sel]
  have c: "chartKitData fmt sel h =
             Inr (Some (map (\<lambda>i. fmt (timestamp (?xs ! i))) [0, 8, 16, 24, 32, 40, 48, 49],
                        map (\<lambda>i. yValue_of (chartYUnit sel) (?xs ! i))
                          [0, 8, 16, 24, 32, 40, 48, 49]))"
    unfolding step unfolding assms labelled_50 .
  have e: "\<forall>e \<in> set h. timestamp (hd ?xs) \<le> timestamp e \<and> timestamp e \<le> timestamp (last ?xs)"
    using sortedHistory_ends by blast
  have "\<exists>labels dataPoints.
          chartKitData fmt sel h = Inr (Some (labels, dataPoints))
          \<and> labels = map (\<lambda>i. fmt (timestamp (?xs ! i))) [0, 8, 16, 24, 32, 40, 48, 49]
          \<and> dataPoints = map (\<lambda>i. yValue_of (chartYUnit sel) (?xs ! i))
                            [0, 8, 16, 24, 32, 40, 48, 49]
          \<and> length labels \<le> 8
          \<and> length labels = length dataPoints
          \<and> hd labels = fmt (timestamp (hd ?xs))
          \<and> last labels = fmt (timestamp (last ?xs))
          \<and> hd dataPoints = yValue_of (chartYUnit sel) (hd ?xs)
          \<and> last dataPoints = yValue_of (chartYUnit sel) (last ?xs)"
    by (simp add: c hd la)
  then show ?thesis
    using sortedHistory_ascending [of h] sortedHistory_mset [of h] sortedHistory_stable [of _ h]
      m e
    by blast
qed

lemma fifty_sorted: "sortedHistory fifty_history = map fifty_item [1 ..< 51]"
  unfolding sortedHistory_def fifty_history_def
proof (rule sort_key_inj_key_eq)
  show "mset (map fifty_item (rev [1 ..< 51])) = mset (map fifty_item [1 ..< 51])"
    by (simp only: rev_map [symmetric] mset_rev)
  show "inj_on timestamp (set (map fifty_item (rev [1 ..< 51])))"
    by (auto simp add: inj_on_def fifty_item_def)
  have t: "timestamp \<circ> fifty_item = int"
    by (simp add: fun_eq_iff fifty_item_def)
  have "sorted (map int [1 ..< 51])"
    by (simp add: sorted_map strict_sorted_iff sorted_wrt_map del: upt_Suc)
  then show "sorted (map timestamp (map fifty_item [1 ..< 51]))"
    unfolding map_map t .
qed

lemma fifty_nth: "i < 50 \<Longrightarrow> sortedHistory fifty_history ! i = fifty_item (i + 1)"
  by (simp add: fifty_sorted del: upt_Suc)

lemma fifty_labels:
  "int_toString (timestamp (fifty_item (Suc 0))) = ''1''"
  "int_toString (timestamp (fifty_item 9)) = ''9''"
  "int_toString (timestamp (fifty_item 17)) = ''17''"
  "int_toString (timestamp (fifty_item 25)) = ''25''"
  "int_toString (timestamp (fifty_item 33)) = ''33''"
  "int_toString (timestamp (fifty_item 41)) = ''41''"
  "int_toString (timestamp (fifty_item 49)) = ''49''"
  "int_toString (timestamp (fifty_item 50)) = ''50''"
  by (simp_all add: fifty_item_def int_toString_def nat_toString.simps)

theorem label_thinning_of_50_witness:
  "length fifty_history = 50
   \<and> chartKitData int_toString MgDl fifty_history =
       Inr (Some ([''1'', ''9'', ''17'', ''25'', ''33'', ''41'', ''49'', ''50''],
                  [Fin (1 / 2), Fin (9 / 2), Fin (17 / 2), Fin (25 / 2), Fin (33 / 2),
                   Fin (41 / 2), Fin (49 / 2), Fin 25]))"
proof -
  let ?h = "fifty_history"
  have n: "length ?h = 50"
    by (simp add: fifty_history_def)
  have y: "yValue_of (chartYUnit MgDl) (fifty_item k) = Fin (real k / 2)" for k
    by (simp add: yValue_of_def chartYUnit_def fifty_item_def)
  from label_thinning_of_50 [OF n, of int_toString MgDl]
  obtain labels dataPoints where
    c: "chartKitData int_toString MgDl ?h = Inr (Some (labels, dataPoints))" and
    l: "labels = map (\<lambda>i. int_toString (timestamp (sortedHistory ?h ! i)))
                   [0, 8, 16, 24, 32, 40, 48, 49]" and
    d: "dataPoints = map (\<lambda>i. yValue_of (chartYUnit MgDl) (sortedHistory ?h ! i))
                       [0, 8, 16, 24, 32, 40, 48, 49]"
    by blast
  have "labels = [''1'', ''9'', ''17'', ''25'', ''33'', ''41'', ''49'', ''50'']"
    unfolding l by (simp add: fifty_nth fifty_labels)
  moreover have "dataPoints = [Fin (1 / 2), Fin (9 / 2), Fin (17 / 2), Fin (25 / 2),
                               Fin (33 / 2), Fin (41 / 2), Fin (49 / 2), Fin 25]"
    unfolding d by (simp add: fifty_nth y)
  ultimately show ?thesis
    using c n by simp
qed

text \<open>
  C7.  With fewer than two entries both chart builders return no series, and the part
  of the native builder after the length test returns no series, and no error, on the
  empty list.
\<close>

theorem no_series_below_two_points:
  assumes "length h < 2"
  shows "chartKitData fmt sel h = Inr None \<and> rechartsData fmt sel h = None
         \<and> thinned_series fmt cu [] = Inr None"
  using assms
  by (simp add: chartKitData_def rechartsData_def MIN_POINTS_FOR_CHART_def thinned_series_def
        force_endpoints_def)

theorem no_series_below_two_points_witness:
  "chartKitData int_toString MgDl [sample_item] = Inr None
   \<and> rechartsData int_toString MgDl [sample_item] = None
   \<and> chartKitData int_toString MgDl [] = Inr None
   \<and> rechartsData int_toString MgDl [] = None
   \<and> thinned_series int_toString MmolL [] = Inr None"
proof -
  have a: "length [sample_item] < 2" and b: "length ([] :: HistoryItem list) < 2"
    by simp_all
  show ?thesis
    using no_series_below_two_points [OF a, of int_toString MgDl MmolL]
      no_series_below_two_points [OF b, of int_toString MgDl MmolL]
    by simp
qed

text \<open>
  C9.  With two entries or more both builders return a series, and the value charted
  for each point is the one of the unit that is not selected for input.  On the web
  screen there is one point for each entry of the sorted history, and its \<open>yValue\<close>
  is the entry's mmol/L value when mg/dL is selected and its mg/dL value when mmol/L is
  selected.  On the native screen there is one value for each labelled index, the
  value in that same unit of the entry of the sorted history at this index.
\<close>

theorem chart_shows_opposite_unit:
  assumes "2 \<le> length h"
  shows "rechartsData fmt sel h =
           Some (map (\<lambda>item. \<lparr>pt_timestamp = timestamp item,
                                timeLabel = fmt (timestamp item),
                                pt_mgdlValue = mgdlValue item, pt_mmolValue = mmolValue item,
                                yValue = (if sel = MgDl then mmolValue item
                                          else mgdlValue item)\<rparr>)
                     (sortedHistory h))
         \<and> chartKitData fmt sel h =
           Inr (Some (map (\<lambda>i. fmt (timestamp (sortedHistory h ! i)))
                        (filter (labelled (length h) (max 1 (length h div MAX_CHART_LABELS)))
                           [0 ..< length h]),
                      map (\<lambda>i. (if sel = MgDl then mmolValue (sortedHistory h ! i)
                                 else mgdlValue (sortedHistory h ! i)))
                        (filter (labelled (length h) (max 1 (length h div MAX_CHART_LABELS)))
                           [0 ..< length h])))
         \<and> 2 \<le> length (filter (labelled (length h) (max 1 (length h div MAX_CHART_LABELS)))
                           [0 ..< length h])"
proof -
  have y: "yValue_of (chartYUnit sel) e = (if sel = MgDl then mmolValue e else mgdlValue e)"
    for e
    by (simp add: yValue_of_def chartYUnit_def)
  have r: "rechartsData fmt sel h =
           Some (map (\<lambda>item. \<lparr>pt_timestamp = timestamp item,
                                timeLabel = fmt (timestamp item),
                                pt_mgdlValue = mgdlValue item, pt_mmolValue = mmolValue item,
                                yValue = (if sel = MgDl then mmolValue item
                                          else mgdlValue item)\<rparr>)
                     (sortedHistory h))"
    using assms by (simp add: rechartsData_def MIN_POINTS_FOR_CHART_def y)
  have st: "1 \<le> max 1 (length h div MAX_CHART_LABELS)"
    by simp
  show ?thesis
    using r chartKitData_series [OF assms, of fmt sel] labelled_indices(3) [OF assms st]
    by (simp add: y)
qed

lemma sample_sorted: "sortedHistory [sample_item2, sample_item] = [sample_item, sample_item2]"
  by (simp add: sortedHistory_def sample_item_def sample_item2_def new_entry_timestamp)

lemma sample_labels:
  "int_toString (timestamp sample_item) = ''1000''"
  "int_toString (timestamp sample_item2) = ''2001''"
  "int_toString 1000 = ''1000''"
  "int_toString 2001 = ''2001''"
  by (simp_all add: sample_item_def sample_item2_def new_entry_timestamp int_toString_def
        nat_toString.simps)

theorem chart_shows_opposite_unit_witness:
  "rechartsData int_toString MgDl [sample_item2, sample_item]
     = Some [\<lparr>pt_timestamp = 1000, timeLabel = ''1000'', pt_mgdlValue = mgdlValue sample_item,
               pt_mmolValue = mmolValue sample_item, yValue = mmolValue sample_item\<rparr>,
             \<lparr>pt_timestamp = 2001, timeLabel = ''2001'', pt_mgdlValue = mgdlValue sample_item2,
               pt_mmolValue = mmolValue sample_item2, yValue = mmolValue sample_item2\<rparr>]
   \<and> chartKitData int_toString MgDl [sample_item2, sample_item]
     = Inr (Some ([''1000'', ''2001''], [mmolValue sample_item, mmolValue sample_item2]))
   \<and> chartKitData int_toString MmolL [sample_item2, sample_item]
     = Inr (Some ([''1000'', ''2001''], [mgdlValue sample_item, mgdlValue sample_item2]))"
proof -
  have n: "2 \<le> length [sample_item2, sample_item]"
    by simp
  have st: "max 1 (length [sample_item2, sample_item] div MAX_CHART_LABELS) = 1"
    by (simp add: MAX_CHART_LABELS_def)
  have ix: "filter (labelled (length [sample_item2, sample_item]) 1)
              [0 ..< length [sample_item2, sample_item]] = [0, 1]"
    by (simp add: labelled_def upt_rec)
  note a = chart_shows_opposite_unit [OF n, of int_toString MgDl]
  note b = chart_shows_opposite_unit [OF n, of int_toString MmolL]
  have ts: "timestamp sample_item = 1000" "timestamp sample_item2 = 2001"
    by (simp_all add: sample_item_def sample_item2_def new_entry_timestamp)
  have "rechartsData int_toString MgDl [sample_item2, sample_item]
          = Some [\<lparr>pt_timestamp = 1000, timeLabel = ''1000'',
                    pt_mgdlValue = mgdlValue sample_item,
                    pt_mmolValue = mmolValue sample_item, yValue = mmolValue sample_item\<rparr>,
                  \<lparr>pt_timestamp = 2001, timeLabel = ''2001'',
                    pt_mgdlValue = mgdlValue sample_item2,
                    pt_mmolValue = mmolValue sample_item2, yValue = mmolValue sample_item2\<rparr>]"
    using a by (simp add: sample_sorted sample_labels ts)
  moreover have "chartKitData int_toString MgDl [sample_item2, sample_item]
          = Inr (Some ([''1000'', ''2001''], [mmolValue sample_item, mmolValue sample_item2]))"
    using a unfolding st ix by (simp add: sample_sorted sample_labels)
  moreover have "chartKitData int_toString MmolL [sample_item2, sample_item]
          = Inr (Some ([''1000'', ''2001''], [mgdlValue sample_item, mgdlValue sample_item2]))"
    using b unfolding st ix by (simp add: sample_sorted sample_labels)
  ultimately show ?thesis
    by blast
qed

subsection \<open>The history table\<close>

text \<open>
  C10.  Once loading is over and the history is not empty, the table consists of the
  rows of the first 20 entries of the history, in order, and of nothing else.
\<close>

theorem table_shows_first_20:
  assumes "\<not> isHistoryLoading s" and "history s \<noteq> []"
  shows "historyList fT tF s = Rows (map (renderHistoryItem fT tF) (take 20 (history s)))
         \<and> length (map (renderHistoryItem fT tF) (take 20 (history s)))
             = min (length (history s)) 20
         \<and> length (map (renderHistoryItem fT tF) (take 20 (history s))) \<le> 20
         \<and> map row_key (map (renderHistoryItem fT tF) (take 20 (history s)))
             = map id (take 20 (history s))"
  using assms
  by (simp add: historyList_def MAX_HISTORY_ITEMS_RENDERED_def renderHistoryItem_def comp_def)

theorem table_shows_first_20_witness:
  "historyList int_toString (\<lambda>x d. []) (ready_screen\<lparr>history := replicate 100 sample_item\<rparr>)
     = Rows (replicate 20 (renderHistoryItem int_toString (\<lambda>x d. []) sample_item))"
proof -
  let ?s = "ready_screen\<lparr>history := replicate 100 sample_item\<rparr>"
  have a: "\<not> isHistoryLoading ?s"
    by (simp add: ready_screen_def initial_def)
  have b: "history ?s \<noteq> []"
    by simp
  show ?thesis
    using table_shows_first_20 [OF a b, of int_toString "\<lambda>x d. []"] by simp
qed

subsection \<open>The history list\<close>












subsection \<open>Input validation\<close>

lemma parseFloat_1e999: "parseFloat ''1e999'' = PInf"
  by (simp add: parse_eval to_double_def DBL_OVERFLOW_def)

text \<open>What the validity test accepts: positive finite values, and plus infinity.\<close>

lemma isInputValid_iff:
  "isInputValid inp \<longleftrightarrow> parseFloat inp = PInf \<or> (\<exists>a. parseFloat inp = Fin a \<and> 0 < a)"
  by (cases "parseFloat inp") (simp_all add: isInputValid_def isNaN_def js_gt_zero_def)

lemma handleConvert_invalid:
  "\<not> isInputValid (inputValue s) \<Longrightarrow>
   web_handleConvert a b s = s \<and> native_handleConvert a b s = s"
  by (simp add: web_handleConvert_def native_handleConvert_def)

lemma overflow_entry: "new_entry ''1e999'' MgDl 1000 1000 = overflow_item"
  by (simp add: new_entry_def parseFloat_1e999 convert_def js_div_def overflow_item_def
        int_toString_def nat_toString.simps)

text \<open>
  C8.  The text \<open>1e999\<close>, five characters long, parses to plus infinity, which is not
  a finite number, and yet the validity test holds for it; a conversion then puts an
  entry with infinite values in the history of either screen.
\<close>

theorem infinity_passes_validation:
  "parseFloat ''1e999'' = PInf
   \<and> \<not> is_finite (parseFloat ''1e999'')
   \<and> isInputValid ''1e999''
   \<and> history (web_handleConvert 1000 1000 overflow_screen) = [overflow_item]
   \<and> history (native_handleConvert 1000 1000 overflow_screen) = [overflow_item]"
proof -
  have v: "isInputValid ''1e999''"
    by (simp add: isInputValid_iff parseFloat_1e999)
  have s: "inputValue overflow_screen = ''1e999''" "selectedUnit overflow_screen = MgDl"
    "history overflow_screen = []"
    by (simp_all add: overflow_screen_def ready_screen_def initial_def)
  have "history (web_handleConvert 1000 1000 overflow_screen) = [overflow_item]"
    by (simp add: web_handleConvert_def s v overflow_entry prepend_entry_def
          MAX_HISTORY_ITEMS_DISPLAYED_def)
  moreover have "history (native_handleConvert 1000 1000 overflow_screen) = [overflow_item]"
    by (simp add: native_handleConvert_def s v overflow_entry prepend_entry_def
          MAX_HISTORY_ITEMS_DISPLAYED_def)
  ultimately show ?thesis
    using v by (simp add: parseFloat_1e999 is_finite_def)
qed

subsection \<open>Persistence\<close>

lemma as_HistoryItem_item_value: "as_HistoryItem (item_value e) = Some e"
  by (simp add: as_HistoryItem_def item_value_def)

lemma item_json_finite:
  assumes "is_finite (mgdlValue e)" and "is_finite (mmolValue e)"
  shows "item_json e = item_value e"
  using assms
  by (auto simp add: item_json_def item_value_def number_json_def is_finite_def
        split: jsnum.splits)

lemma as_HistoryItems_item_value: "as_HistoryItems (map item_value h) = Some h"
  by (induction h) (simp_all add: as_HistoryItem_item_value)

lemma map_item_json_finite:
  "\<forall>e \<in> set h. is_finite (mgdlValue e) \<and> is_finite (mmolValue e) \<Longrightarrow>
   map item_json h = map item_value h"
  by (simp add: item_json_finite)

text \<open>
  As long as every value in the history is finite, a save that succeeds leaves in the
  slot a text that parses to the history as it is in memory, and from which either
  screen loads that history back.
\<close>

lemma saved_history_reloads:
  assumes "\<forall>e \<in> set (history s). is_finite (mgdlValue e) \<and> is_finite (mmolValue e)"
    and "length (history s) \<le> 100" and "\<not> isHistoryLoading s"
  shows "slot (web_saveHistory True s) = Some (JSON (JArray (map item_value (history s))))"
    and "slot (native_saveHistory True s) = Some (JSON (JArray (map item_value (history s))))"
    and "web_loadHistory True r (web_saveHistory True s) = Ready (web_saveHistory True s)"
    and "native_loadHistory True (native_saveHistory True s) = Ready (native_saveHistory True s)"
proof -
  have m: "map item_json (history s) = map item_value (history s)"
    by (rule map_item_json_finite [OF assms(1)])
  have a: "as_HistoryItems (map item_json (history s)) = Some (history s)"
    unfolding m by (rule as_HistoryItems_item_value)
  show "slot (web_saveHistory True s) = Some (JSON (JArray (map item_value (history s))))"
    using assms(2,3)
    by (simp add: web_saveHistory_def JSON_stringify_def MAX_HISTORY_ITEMS_DISPLAYED_def m)
  show "slot (native_saveHistory True s) = Some (JSON (JArray (map item_value (history s))))"
    using assms(2,3)
    by (simp add: native_saveHistory_def JSON_stringify_def MAX_HISTORY_ITEMS_DISPLAYED_def m)
  show "web_loadHistory True r (web_saveHistory True s) = Ready (web_saveHistory True s)"
    using assms(2,3)
    by (simp add: web_loadHistory_def web_saveHistory_def JSON_stringify_def JSON_parse_def
          MAX_HISTORY_ITEMS_DISPLAYED_def a)
  show "native_loadHistory True (native_saveHistory True s) = Ready (native_saveHistory True s)"
    using assms(2,3)
    by (simp add: native_loadHistory_def native_saveHistory_def JSON_stringify_def
          JSON_parse_def MAX_HISTORY_ITEMS_DISPLAYED_def a)
qed

lemma as_HistoryItem_overflow: "as_HistoryItem (item_json overflow_item) = None"
  by (simp add: as_HistoryItem_def item_json_def number_json_def overflow_item_def)

text \<open>
  C3.  After the conversion of \<open>1e999\<close> and a save that succeeds, the history in
  memory holds the entry with infinite values, the slot holds an entry whose two values
  are \<open>null\<close>, and the list that is parsed back from the slot is not the list in
  memory: on both screens a load from this slot makes the history a list with
  \<open>null\<close> for the two values.
\<close>

theorem infinite_entry_not_persisted:
  "history (web_saveHistory True (web_handleConvert 1000 1000 overflow_screen))
     = [overflow_item]
   \<and> slot (web_saveHistory True (web_handleConvert 1000 1000 overflow_screen))
     = Some (JSON (JArray [JObject [(''id'', JString ''1000''),
                                    (''timestamp'', JNumber (Fin 1000)),
                                    (''mgdlValue'', JNull), (''mmolValue'', JNull)]]))
   \<and> JArray [JObject [(''id'', JString ''1000''), (''timestamp'', JNumber (Fin 1000)),
                       (''mgdlValue'', JNull), (''mmolValue'', JNull)]]
     \<noteq> JArray (map item_value [overflow_item])
   \<and> as_HistoryItems [JObject [(''id'', JString ''1000''), (''timestamp'', JNumber (Fin 1000)),
                                (''mgdlValue'', JNull), (''mmolValue'', JNull)]]
     \<noteq> Some [overflow_item]
   \<and> web_loadHistory True True
        (web_saveHistory True (web_handleConvert 1000 1000 overflow_screen))
     = Unmodelled
         (JArray [JObject [(''id'', JString ''1000''), (''timestamp'', JNumber (Fin 1000)),
                           (''mgdlValue'', JNull), (''mmolValue'', JNull)]])
         ((web_saveHistory True (web_handleConvert 1000 1000 overflow_screen))
            \<lparr>isHistoryLoading := False\<rparr>)
   \<and> native_loadHistory True
        (native_saveHistory True (native_handleConvert 1000 1000 overflow_screen))
     = Unmodelled
         (JArray [JObject [(''id'', JString ''1000''), (''timestamp'', JNumber (Fin 1000)),
                           (''mgdlValue'', JNull), (''mmolValue'', JNull)]])
         ((native_saveHistory True (native_handleConvert 1000 1000 overflow_screen))
            \<lparr>isHistoryLoading := False\<rparr>)"
proof -
  have v: "isInputValid ''1e999''"
    by (simp add: isInputValid_iff parseFloat_1e999)
  have s: "inputValue overflow_screen = ''1e999''" "selectedUnit overflow_screen = MgDl"
    "history overflow_screen = []" "\<not> isHistoryLoading overflow_screen"
    by (simp_all add: overflow_screen_def ready_screen_def initial_def)
  have j: "item_json overflow_item =
             JObject [(''id'', JString ''1000''), (''timestamp'', JNumber (Fin 1000)),
                      (''mgdlValue'', JNull), (''mmolValue'', JNull)]"
    by (simp add: item_json_def number_json_def overflow_item_def)
  have w: "web_saveHistory True (web_handleConvert 1000 1000 overflow_screen) =
             overflow_screen\<lparr>history := [overflow_item],
               alerts := alerts overflow_screen @ [ConversionResult MgDl PInf PInf],
               inputValue := [],
               slot := Some (JSON (JArray [item_json overflow_item]))\<rparr>"
    by (simp add: web_saveHistory_def web_handleConvert_def s v overflow_entry
          prepend_entry_def MAX_HISTORY_ITEMS_DISPLAYED_def JSON_stringify_def)
       (simp add: overflow_item_def)
  have n: "native_saveHistory True (native_handleConvert 1000 1000 overflow_screen) =
             overflow_screen\<lparr>history := [overflow_item],
               alerts := alerts overflow_screen @ [ConversionResult MgDl PInf PInf],
               slot := Some (JSON (JArray [item_json overflow_item]))\<rparr>"
    by (simp add: native_saveHistory_def native_handleConvert_def s v overflow_entry
          prepend_entry_def MAX_HISTORY_ITEMS_DISPLAYED_def JSON_stringify_def)
       (simp add: overflow_item_def)
  have a: "as_HistoryItems [item_json overflow_item] = None"
    by (simp add: as_HistoryItem_overflow)
  have d: "JArray [item_json overflow_item] \<noteq> JArray (map item_value [overflow_item])"
    unfolding j by (simp add: item_value_def overflow_item_def)
  have lw: "web_loadHistory True True
          (web_saveHistory True (web_handleConvert 1000 1000 overflow_screen))
        = Unmodelled (JArray [item_json overflow_item])
            ((web_saveHistory True (web_handleConvert 1000 1000 overflow_screen))
               \<lparr>isHistoryLoading := False\<rparr>)"
    unfolding w
    by (simp add: web_loadHistory_def JSON_parse_def MAX_HISTORY_ITEMS_DISPLAYED_def
          as_HistoryItem_overflow)
  have ln: "native_loadHistory True
          (native_saveHistory True (native_handleConvert 1000 1000 overflow_screen))
        = Unmodelled (JArray [item_json overflow_item])
            ((native_saveHistory True (native_handleConvert 1000 1000 overflow_screen))
               \<lparr>isHistoryLoading := False\<rparr>)"
    unfolding n
    by (simp add: native_loadHistory_def JSON_parse_def MAX_HISTORY_ITEMS_DISPLAYED_def
          as_HistoryItem_overflow)
  have h: "history (web_saveHistory True (web_handleConvert 1000 1000 overflow_screen))
             = [overflow_item]"
    and sl: "slot (web_saveHistory True (web_handleConvert 1000 1000 overflow_screen))
             = Some (JSON (JArray [item_json overflow_item]))"
    by (simp_all add: w)
  from h sl d a lw ln show ?thesis
    unfolding j by simp
qed

subsection \<open>Loading a slot that does not hold a list\<close>

text \<open>
  C4, as stated, fails: with the text \<open>not a list\<close> in the slot, \<open>JSON.parse\<close> throws,
  the \<open>catch\<close> of either screen alerts the user, and the slot still holds the text
  when the load is over.
\<close>

theorem unparsable_slot_is_kept:
  "web_loadHistory True True (initial (Some (NotJSON ''not a list''))) =
     Ready \<lparr>inputValue = [], selectedUnit = MgDl, history = [], isHistoryLoading = False,
            slot = Some (NotJSON ''not a list''), alerts = [CouldNotLoad],
            console = [SyntaxError]\<rparr>
   \<and> native_loadHistory True (initial (Some (NotJSON ''not a list''))) =
     Ready \<lparr>inputValue = [], selectedUnit = MgDl, history = [], isHistoryLoading = False,
            slot = Some (NotJSON ''not a list''), alerts = [CouldNotLoad],
            console = [SyntaxError]\<rparr>"
  by (simp add: web_loadHistory_def native_loadHistory_def initial_def JSON_parse_def
        web_load_failed_def native_load_failed_def)

text \<open>
  C4, amended.  Let the slot hold something that is not a list, and let the read
  succeed.  The web load ends with an empty history and the loading flag cleared, and
  throws nothing: a text that is not JSON stays in the slot and the user is alerted; a
  JSON value that is not an array is removed from the slot without an alert (if the
  removal fails, it stays and the user is alerted).  The native load, for a text that is
  not JSON or a JSON value that is neither an array nor a string, leaves history and
  slot as they are, alerts the user and clears the loading flag.  The save that follows
  the load writes the empty list over the slot when the history is empty.
\<close>

theorem load_of_non_list:
  assumes "slot s = Some st" and "\<not> is_list st"
  shows "(\<exists>s'. web_loadHistory True remove_ok s = Ready s'
              \<and> history s' = [] \<and> \<not> isHistoryLoading s'
              \<and> (if is_json st \<and> remove_ok
                  then slot s' = None \<and> alerts s' = alerts s
                  else slot s' = Some st \<and> alerts s' = alerts s @ [CouldNotLoad])
              \<and> slot (web_saveHistory True s') = Some (JSON (JArray [])))
         \<and> (\<not> is_json_string st \<longrightarrow>
              native_loadHistory True s =
                Ready (s\<lparr>console := console s @ [if is_json st then TypeError else SyntaxError],
                         alerts := alerts s @ [CouldNotLoad], isHistoryLoading := False\<rparr>)
              \<and> (history s = [] \<longrightarrow>
                   slot (native_saveHistory True
                           (s\<lparr>console := console s
                                           @ [if is_json st then TypeError else SyntaxError],
                              alerts := alerts s @ [CouldNotLoad], isHistoryLoading := False\<rparr>))
                     = Some (JSON (JArray []))))"
proof (cases st)
  case (NotJSON t)
  have "\<exists>s'. web_loadHistory True remove_ok s = Ready s'
              \<and> history s' = [] \<and> \<not> isHistoryLoading s'
              \<and> (if is_json st \<and> remove_ok
                  then slot s' = None \<and> alerts s' = alerts s
                  else slot s' = Some st \<and> alerts s' = alerts s @ [CouldNotLoad])
              \<and> slot (web_saveHistory True s') = Some (JSON (JArray []))"
    using assms NotJSON
    by (simp add: web_loadHistory_def JSON_parse_def web_load_failed_def is_json_def
          web_saveHistory_def JSON_stringify_def)
  moreover have "native_loadHistory True s =
      Ready (s\<lparr>console := console s @ [SyntaxError], alerts := alerts s @ [CouldNotLoad],
               isHistoryLoading := False\<rparr>)"
    using assms NotJSON
    by (simp add: native_loadHistory_def JSON_parse_def native_load_failed_def)
  moreover have "\<not> is_json st"
    by (simp add: NotJSON is_json_def)
  ultimately show ?thesis
    by (simp add: native_saveHistory_def JSON_stringify_def)
next
  case (JSON v)
  have "\<exists>s'. web_loadHistory True remove_ok s = Ready s'
              \<and> history s' = [] \<and> \<not> isHistoryLoading s'
              \<and> (if is_json st \<and> remove_ok
                  then slot s' = None \<and> alerts s' = alerts s
                  else slot s' = Some st \<and> alerts s' = alerts s @ [CouldNotLoad])
              \<and> slot (web_saveHistory True s') = Some (JSON (JArray []))"
    using assms JSON
    by (cases v)
       (simp_all add: web_loadHistory_def JSON_parse_def web_load_failed_def is_json_def
          is_list_def web_saveHistory_def JSON_stringify_def)
  moreover have "\<not> is_json_string st \<longrightarrow> native_loadHistory True s =
      Ready (s\<lparr>console := console s @ [TypeError], alerts := alerts s @ [CouldNotLoad],
               isHistoryLoading := False\<rparr>)"
    using assms JSON
    by (cases v)
       (simp_all add: native_loadHistory_def JSON_parse_def native_load_failed_def
          is_list_def is_json_string_def)
  moreover have "is_json st"
    by (simp add: JSON is_json_def)
  ultimately show ?thesis
    by (simp add: native_saveHistory_def JSON_stringify_def)
qed

theorem load_of_non_list_witness:
  "web_loadHistory True True (initial (Some (JSON (JObject [])))) =
     Ready \<lparr>inputValue = [], selectedUnit = MgDl, history = [], isHistoryLoading = False,
            slot = None, alerts = [], console = []\<rparr>
   \<and> native_loadHistory True (initial (Some (JSON (JObject [])))) =
     Ready \<lparr>inputValue = [], selectedUnit = MgDl, history = [], isHistoryLoading = False,
            slot = Some (JSON (JObject [])), alerts = [CouldNotLoad], console = [TypeError]\<rparr>"
proof -
  let ?s = "initial (Some (JSON (JObject [])))"
  have a: "slot ?s = Some (JSON (JObject []))"
    by (simp add: initial_def)
  have b: "\<not> is_list (JSON (JObject []))"
    by (simp add: is_list_def)
  have c: "is_json (JSON (JObject []))" "\<not> is_json_string (JSON (JObject []))"
    by (simp_all add: is_json_def is_json_string_def)
  note t = load_of_non_list [OF a b, of True]
  have "native_loadHistory True ?s =
          Ready \<lparr>inputValue = [], selectedUnit = MgDl, history = [], isHistoryLoading = False,
                 slot = Some (JSON (JObject [])), alerts = [CouldNotLoad],
                 console = [TypeError]\<rparr>"
    using t c by (simp add: initial_def)
  moreover have "web_loadHistory True True ?s =
          Ready \<lparr>inputValue = [], selectedUnit = MgDl, history = [], isHistoryLoading = False,
                 slot = None, alerts = [], console = []\<rparr>"
    by (simp add: web_loadHistory_def initial_def JSON_parse_def)
  ultimately show ?thesis
    by blast
qed

subsection \<open>Clearing the history\<close>

text \<open>
  C5, as stated, fails on the native screen: after a confirmed clear the slot still
  holds the saved entry, and the save that follows the clear (on either screen) leaves
  the serialized empty list in the slot, not an empty slot.
\<close>

theorem native_clear_keeps_slot:
  "slot (native_handleClearHistory True one_entry_screen) = Some (JSON_stringify [sample_item])
   \<and> slot (native_saveHistory True (native_handleClearHistory True one_entry_screen))
       = Some (JSON (JArray []))
   \<and> slot (web_saveHistory True (web_handleClearHistory True True one_entry_screen))
       = Some (JSON (JArray []))"
  by (simp add: native_handleClearHistory_def web_handleClearHistory_def one_entry_screen_def
        ready_screen_def initial_def native_saveHistory_def web_saveHistory_def
        JSON_stringify_def)

text \<open>
  C5, amended.  A confirmed clear empties the history in memory and the input on both
  screens.  On the web screen it also removes the slot; if the removal fails the
  history is emptied all the same, the slot stays and the user is alerted.  On the
  native screen the clear does not touch the slot.  On both screens the save that
  follows, if it succeeds, writes the serialized empty list to the slot.  A clear that
  is not confirmed changes nothing.
\<close>

theorem clear_history:
  "history (web_handleClearHistory True remove_ok s) = []
   \<and> inputValue (web_handleClearHistory True remove_ok s) = []
   \<and> slot (web_handleClearHistory True True s) = None
   \<and> alerts (web_handleClearHistory True True s) = alerts s
   \<and> slot (web_handleClearHistory True False s) = slot s
   \<and> alerts (web_handleClearHistory True False s) = alerts s @ [CouldNotClear]
   \<and> history (native_handleClearHistory True s) = []
   \<and> inputValue (native_handleClearHistory True s) = []
   \<and> slot (native_handleClearHistory True s) = slot s
   \<and> alerts (native_handleClearHistory True s) = alerts s
   \<and> (\<not> isHistoryLoading s \<longrightarrow>
        slot (native_saveHistory True (native_handleClearHistory True s))
          = Some (JSON (JArray []))
        \<and> slot (web_saveHistory True (web_handleClearHistory True remove_ok s))
          = Some (JSON (JArray [])))
   \<and> web_handleClearHistory False remove_ok s = s
   \<and> native_handleClearHistory False s = s"
  by (simp add: web_handleClearHistory_def native_handleClearHistory_def Let_def
        native_saveHistory_def web_saveHistory_def JSON_stringify_def)

theorem clear_history_witness:
  "history (web_handleClearHistory True True one_entry_screen) = []
   \<and> slot (web_handleClearHistory True True one_entry_screen) = None
   \<and> history (web_handleClearHistory True False one_entry_screen) = []
   \<and> alerts (web_handleClearHistory True False one_entry_screen) = [CouldNotClear]
   \<and> history (native_handleClearHistory True one_entry_screen) = []
   \<and> slot (native_saveHistory True (native_handleClearHistory True one_entry_screen))
       = Some (JSON (JArray []))"
proof -
  have l: "\<not> isHistoryLoading one_entry_screen" "alerts one_entry_screen = []"
    by (simp_all add: one_entry_screen_def ready_screen_def initial_def)
  show ?thesis
    using clear_history [of True one_entry_screen] clear_history [of False one_entry_screen] l
    by simp
qed

end
